theory Spec2Isabelle
  imports Main
begin

section \<open>The signaling client of go-ayame\<close>

text \<open>
  A shallow embedding of \<^verbatim>\<open>src/ayame/connection.go\<close> and \<^verbatim>\<open>src/ayame/options.go\<close>.

  The Go code drives two libraries, a WebSocket connection and the pion WebRTC engine, and
  decodes JSON. None of the three is part of the repository, so none is modelled: each
  library call is a field of the record \<open>Env\<close>, and its result is read from there. A
  result may depend on everything the client has done so far, so each of these fields takes
  the list of the calls made up to that point (the field \<open>events\<close> of the connection), which
  every library call and every callback invocation extends by one \<open>Event\<close>. A theorem that
  holds for every \<open>Env\<close> holds whatever the libraries answer.

  What the embedding leaves out:
  \<^item> \<^verbatim>\<open>trace\<close> (logging) and the \<^verbatim>\<open>Debug\<close> flag have no effect on the state and are dropped;
  \<^item> \<^verbatim>\<open>callbackMu\<close>: every operation is modelled as running alone, from call to return; starting
    a goroutine is recorded as an event and the goroutine's body is a function of its own;
  \<^item> the two goroutines started inside \<^verbatim>\<open>pc.OnTrack\<close> (RTP and RTCP traffic);
  \<^item> a consumer callback is a value \<open>Consumer n\<close>; calling it is recorded as an event and it does
    not call back into the connection;
  \<^item> \<^verbatim>\<open>Options\<close> and the five handler fields are taken to be non-nil.
\<close>

subsection \<open>Errors\<close>

datatype error =
    errorInvalidJSON
  | errorInvalidMessageType
  | ConnectionAlreadyExists
  | WsAlreadyExists
  | WsOpenError error
  | UnsupportedVideoCodec string
  | External string

text \<open>
  \<open>ConnectionAlreadyExists\<close> is \<^verbatim>\<open>fmt.Errorf("connection alreay exists")\<close>, \<open>WsAlreadyExists\<close> is
  \<^verbatim>\<open>fmt.Errorf("WS-ALREADY-EXISTS")\<close>, \<open>WsOpenError e\<close> is \<^verbatim>\<open>fmt.Errorf("WS-OPEN-ERROR: %w", err)\<close>,
  \<open>UnsupportedVideoCodec c\<close> is \<^verbatim>\<open>fmt.Errorf("Unsupported Video Codec: %s", c)\<close>; \<open>External\<close> stands
  for an error value made by a library.
\<close>

subsection \<open>Types of the WebRTC engine used by the client\<close>

datatype ICEConnectionState =
    ICEConnectionStateNew
  | ICEConnectionStateChecking
  | ICEConnectionStateConnected
  | ICEConnectionStateCompleted
  | ICEConnectionStateDisconnected
  | ICEConnectionStateFailed
  | ICEConnectionStateClosed

datatype SignalingState =
    SignalingStateStable
  | SignalingStateHaveLocalOffer
  | SignalingStateHaveRemoteOffer
  | SignalingStateHaveLocalPranswer
  | SignalingStateHaveRemotePranswer
  | SignalingStateClosed

datatype SDPType = SDPTypeOffer | SDPTypePranswer | SDPTypeAnswer | SDPTypeRollback

record SessionDescription =
  SDType :: SDPType
  SDP :: string

record ICECandidateInit =
  Candidate :: string
  SDPMid :: "string option"
  SDPMLineIndex :: "nat option"

datatype ICECredentialType = ICECredentialTypePassword | ICECredentialTypeOauth

record ICEServer =
  URLs :: "string list"
  Username :: string
  Credential :: "string option"
  CredentialType :: ICECredentialType

text \<open>Of \<^verbatim>\<open>webrtc.Configuration\<close> the client reads and writes the field \<^verbatim>\<open>ICEServers\<close> only.\<close>

record Configuration =
  ICEServers :: "ICEServer list"

datatype RTPCodecType = RTPCodecTypeAudio | RTPCodecTypeVideo

subsection \<open>Options (options.go)\<close>

text \<open>
  The two option structs of the source both have fields \<^verbatim>\<open>Direction\<close> and \<^verbatim>\<open>Enabled\<close>; here they
  carry the struct's name in front.
\<close>

record ConnectionAudioOption =
  AudioDirection :: string
  AudioEnabled :: bool

record ConnectionVideoOption =
  VideoCodec :: string
  VideoDirection :: string
  VideoEnabled :: bool

record ConnectionOptions =
  Audio :: ConnectionAudioOption
  Video :: ConnectionVideoOption
  ClientID :: string
  OptionsICEServers :: "ICEServer list"
  SignalingKey :: string

subsection \<open>Protocol messages\<close>

text \<open>
  Modelled from the spec: the message structs (\<^verbatim>\<open>message\<close>, \<^verbatim>\<open>acceptMessage\<close>, \<^verbatim>\<open>iceServer\<close>,
  \<^verbatim>\<open>rejectMessage\<close>, \<^verbatim>\<open>candidateMessage\<close>, \<^verbatim>\<open>registerMessage\<close>, \<^verbatim>\<open>pongMessage\<close>) are declared in a
  file that is not under src/. Their fields are the ones \<^verbatim>\<open>handleMessage\<close> and
  \<^verbatim>\<open>sendRegisterMessage\<close> read and write, with the wire shapes of section 6 of the spec; a Go
  pointer field is an \<open>option\<close>. An \<^verbatim>\<open>interface{}\<close> metadata value is kept as an opaque string.
\<close>

type_synonym Metadata = string

record iceServer =
  Urls :: "string list"
  UserName :: "string option"
  ServerCredential :: "string option"

record acceptMessage =
  ConnectionID :: string
  AuthzMetadata :: "Metadata option"
  IceServers :: "iceServer list option"
  IsExistClient :: bool

record rejectMessage =
  Reason :: string

record candidateMessage =
  ICECandidate :: "ICECandidateInit option"

record registerMessage =
  RegisterRoomID :: string
  RegisterClientID :: string
  RegisterAuthnMetadata :: "Metadata option"
  RegisterSignalingKey :: "string option"
  AyameClient :: "string option"
  Environment :: "string option"

text \<open>What \<^verbatim>\<open>sendMsg\<close> is given to write: a pong, a register message or a session description.\<close>

datatype OutMsg =
    PongMsg
  | RegisterMsg registerMessage
  | SdpMsg SessionDescription

text \<open>
  The outcome of \<^verbatim>\<open>json.Unmarshal(rawMessage, &message)\<close>, where \<^verbatim>\<open>message\<close> is a pointer to a
  struct with the one field \<^verbatim>\<open>Type\<close>: an error, the pointer set to nil (the frame is the JSON
  literal \<^verbatim>\<open>null\<close>), or the tag read (the empty string when the frame has none).
\<close>

datatype TagResult = JSONError | JSONNull | Tag string

subsection \<open>Callbacks and events\<close>

text \<open>
  A handler field holds either the no-op closure that \<^verbatim>\<open>Disconnect\<close> installs, or a function of
  the consumer's.
\<close>

datatype Handler = NoOp | Consumer nat

text \<open>
  The function registered with \<^verbatim>\<open>pc.OnICEConnectionStateChange\<close>: the closure of
  \<^verbatim>\<open>createPeerConnection\<close>, or the empty one of \<^verbatim>\<open>closePeerConnection\<close>.
\<close>

datatype ICECallback = ConnectionICECallback | NoOpICECallback

text \<open>
  One event per library call that acts on the outside, per goroutine started and per handler
  called. WebSocket connections and peer connections are named by numbers.
\<close>

datatype Event =
    Dial string
  | Write nat OutMsg
  | CloseWS nat
  | GoRecv
  | GoMain
  | Cancel
  | NewPeerConnection Configuration
  | AddTransceiver nat RTPCodecType
  | OnTrack nat
  | OnICEConnectionStateChange nat ICECallback
  | OnSignalingStateChange nat
  | CreateOffer nat
  | CreateAnswer nat
  | SetLocalDescription nat SessionDescription
  | SetRemoteDescription nat SessionDescription
  | AddICECandidate nat ICECandidateInit
  | ClosePC nat
  | GoClosePoller nat
  | CallOnOpen Handler "Metadata option"
  | CallOnConnect Handler
  | CallOnDisconnect Handler string "error option"
  | CallOnBye Handler

subsection \<open>The libraries, as parameters\<close>

text \<open>
  Each field answers one library call; its first argument is the list of events so far.
  \<^verbatim>\<open>unmarshalMessage\<close> is a helper of the repository that is not under src/; section 4.1 of the
  spec gives it no side effect, and it is a parameter here like the JSON decoder it wraps.
  The results of \<^verbatim>\<open>SetLocalDescription\<close>, \<^verbatim>\<open>AddICECandidate\<close>, \<^verbatim>\<open>pc.Close\<close> and \<^verbatim>\<open>ws.Close\<close> are
  dropped or only logged by the source, so they have no field.
\<close>

record Env =
  websocket_Dial :: "Event list \<Rightarrow> string \<Rightarrow> error + nat"
  wsjson_Write :: "Event list \<Rightarrow> nat \<Rightarrow> OutMsg \<Rightarrow> error option"
  api_NewPeerConnection :: "Event list \<Rightarrow> Configuration \<Rightarrow> error + nat"
  pc_AddTransceiver :: "Event list \<Rightarrow> nat \<Rightarrow> RTPCodecType \<Rightarrow> error option"
  pc_SignalingState :: "Event list \<Rightarrow> nat \<Rightarrow> SignalingState"
  pc_CreateOffer :: "Event list \<Rightarrow> nat \<Rightarrow> error + SessionDescription"
  pc_CreateAnswer :: "Event list \<Rightarrow> nat \<Rightarrow> error + SessionDescription"
  pc_LocalDescription :: "Event list \<Rightarrow> nat \<Rightarrow> SessionDescription option"
  pc_SetRemoteDescription :: "Event list \<Rightarrow> nat \<Rightarrow> SessionDescription \<Rightarrow> error option"
  json_Unmarshal_type :: "string \<Rightarrow> TagResult"
  unmarshal_accept :: "string \<Rightarrow> error + acceptMessage"
  unmarshal_reject :: "string \<Rightarrow> error + rejectMessage"
  unmarshal_sdp :: "string \<Rightarrow> error + SessionDescription"
  unmarshal_candidate :: "string \<Rightarrow> error + candidateMessage"
  runtime_GOOS :: string
  runtime_GOARCH :: string

subsection \<open>The connection\<close>

text \<open>
  The fields of the Go struct, and \<open>events\<close>: the calls made on the outside so far, which is
  not a field of the source.
\<close>

record Connection =
  SignalingURL :: string
  RoomID :: string
  Options :: ConnectionOptions
  AuthnMetadata :: "Metadata option"
  authzMetadata :: "Metadata option"
  connectionState :: ICEConnectionState
  connectionID :: string
  ws :: "nat option"
  pc :: "nat option"
  pcConfig :: Configuration
  isOffer :: bool
  isExistClient :: bool
  onOpenHandler :: Handler
  onConnectHandler :: Handler
  onDisconnectHandler :: Handler
  onTrackPacketHandler :: Handler
  onByeHandler :: Handler
  events :: "Event list"

definition readLimit :: nat where
  "readLimit = 1048576"

definition emit :: "Event \<Rightarrow> Connection \<Rightarrow> Connection" where
  "emit e c = c\<lparr>events := events c @ [e]\<rparr>"

section \<open>Operations\<close>

subsection \<open>Registering callbacks\<close>

definition OnOpen :: "Handler \<Rightarrow> Connection \<Rightarrow> Connection" where
  "OnOpen f c = c\<lparr>onOpenHandler := f\<rparr>"

definition OnConnect :: "Handler \<Rightarrow> Connection \<Rightarrow> Connection" where
  "OnConnect f c = c\<lparr>onConnectHandler := f\<rparr>"

definition OnDisconnect :: "Handler \<Rightarrow> Connection \<Rightarrow> Connection" where
  "OnDisconnect f c = c\<lparr>onDisconnectHandler := f\<rparr>"

definition OnTrackPacket :: "Handler \<Rightarrow> Connection \<Rightarrow> Connection" where
  "OnTrackPacket f c = c\<lparr>onTrackPacketHandler := f\<rparr>"

definition OnBye :: "Handler \<Rightarrow> Connection \<Rightarrow> Connection" where
  "OnBye f c = c\<lparr>onByeHandler := f\<rparr>"

subsection \<open>Teardown\<close>

text \<open>
  \<^verbatim>\<open>closePeerConnection\<close>: nothing without a session; a session the engine reports closed is
  forgotten; any other has its ICE callback replaced, a poller goroutine started (every 400 ms
  it clears \<^verbatim>\<open>c.pc\<close> once the engine reports closed) and \<^verbatim>\<open>Close\<close> called. In that last case
  \<^verbatim>\<open>c.pc\<close> is still set when the function returns.
\<close>

definition closePeerConnection :: "Env \<Rightarrow> Connection \<Rightarrow> Connection" where
  "closePeerConnection env c =
     (case pc c of
        None \<Rightarrow> c
      | Some p \<Rightarrow>
          if pc_SignalingState env (events c) p = SignalingStateClosed then c\<lparr>pc := None\<rparr>
          else emit (ClosePC p)
                 (emit (GoClosePoller p)
                    (emit (OnICEConnectionStateChange p NoOpICECallback) c)))"

text \<open>One tick of the poller goroutine that \<^verbatim>\<open>closePeerConnection\<close> starts.\<close>

definition closePollerTick :: "Env \<Rightarrow> Connection \<Rightarrow> Connection" where
  "closePollerTick env c =
     (case pc c of
        None \<Rightarrow> c
      | Some p \<Rightarrow>
          if pc_SignalingState env (events c) p = SignalingStateClosed then c\<lparr>pc := None\<rparr>
          else c)"

definition closeWebSocketConnection :: "Connection \<Rightarrow> Connection" where
  "closeWebSocketConnection c =
     (case ws c of
        None \<Rightarrow> c
      | Some w \<Rightarrow> (emit (CloseWS w) c)\<lparr>ws := None\<rparr>)"

definition Disconnect :: "Env \<Rightarrow> Connection \<Rightarrow> Connection" where
  "Disconnect env c =
     (let c1 = closePeerConnection env c;
          c2 = closeWebSocketConnection c1
      in c2\<lparr>authzMetadata := None,
            connectionID := [],
            connectionState := ICEConnectionStateNew,
            isOffer := False,
            isExistClient := False,
            onOpenHandler := NoOp,
            onConnectHandler := NoOp,
            onDisconnectHandler := NoOp,
            onTrackPacketHandler := NoOp,
            onByeHandler := NoOp\<rparr>)"

text \<open>
  Calling \<^verbatim>\<open>c.onDisconnectHandler(reason, err)\<close> calls the function the field holds at that
  moment.
\<close>

definition callOnDisconnect :: "string \<Rightarrow> error option \<Rightarrow> Connection \<Rightarrow> Connection" where
  "callOnDisconnect reason err c = emit (CallOnDisconnect (onDisconnectHandler c) reason err) c"

subsection \<open>Sending\<close>

definition sendMsg :: "Env \<Rightarrow> OutMsg \<Rightarrow> Connection \<Rightarrow> error option \<times> Connection" where
  "sendMsg env v c =
     (case ws c of
        None \<Rightarrow> (None, c)
      | Some w \<Rightarrow> (wsjson_Write env (events c) w v, emit (Write w v) c))"

definition sendPongMessage :: "Env \<Rightarrow> Connection \<Rightarrow> error option \<times> Connection" where
  "sendPongMessage env c = sendMsg env PongMsg c"

text \<open>The value \<^verbatim>\<open>msg\<close> that \<^verbatim>\<open>sendRegisterMessage\<close> builds before it sends it.\<close>

definition registerMsg :: "Env \<Rightarrow> Connection \<Rightarrow> registerMessage" where
  "registerMsg env c =
     \<lparr>RegisterRoomID = RoomID c,
      RegisterClientID = ClientID (Options c),
      RegisterAuthnMetadata = AuthnMetadata c,
      RegisterSignalingKey =
        (if SignalingKey (Options c) \<noteq> [] then Some (SignalingKey (Options c)) else None),
      AyameClient = Some ''go-ayame v0.1.0'',
      Environment = Some (runtime_GOOS env @ '' '' @ runtime_GOARCH env)\<rparr>"

definition sendRegisterMessage :: "Env \<Rightarrow> Connection \<Rightarrow> error option \<times> Connection" where
  "sendRegisterMessage env c = sendMsg env (RegisterMsg (registerMsg env c)) c"

definition sendSdp :: "Env \<Rightarrow> SessionDescription \<Rightarrow> Connection \<Rightarrow> Connection" where
  "sendSdp env sessionDescription c = snd (sendMsg env (SdpMsg sessionDescription) c)"

subsection \<open>Connecting\<close>

definition openWS :: "Env \<Rightarrow> Connection \<Rightarrow> (error + nat) \<times> Connection" where
  "openWS env c =
     (websocket_Dial env (events c) (SignalingURL c), emit (Dial (SignalingURL c)) c)"

definition signaling :: "Env \<Rightarrow> Connection \<Rightarrow> error option \<times> Connection" where
  "signaling env c =
     (if ws c \<noteq> None then (Some WsAlreadyExists, c)
      else
        (case openWS env c of
           (Inl err, c1) \<Rightarrow> (Some (WsOpenError err), c1)
         | (Inr w, c1) \<Rightarrow>
             sendRegisterMessage env (emit GoMain (emit GoRecv (c1\<lparr>ws := Some w\<rparr>)))))"

definition Connect :: "Env \<Rightarrow> Connection \<Rightarrow> error option \<times> Connection" where
  "Connect env c =
     (if ws c \<noteq> None \<or> pc c \<noteq> None then (Some ConnectionAlreadyExists, c)
      else (None, snd (signaling env c)))"

subsection \<open>The session\<close>

text \<open>
  \<^verbatim>\<open>createPeerConnection\<close>. The codec check comes first. The value of the error returned by
  \<^verbatim>\<open>AddTransceiver\<close> leaves a session created and not stored. At the end the source tests
  \<^verbatim>\<open>c.pc != nil\<close> before it stores the new session: the on-open handler is called when a session
  was already stored, and not otherwise.
\<close>

definition createPeerConnection :: "Env \<Rightarrow> Connection \<Rightarrow> error option \<times> Connection" where
  "createPeerConnection env c =
     (if VideoCodec (Video (Options c)) \<noteq> ''VP8''
      then (Some (UnsupportedVideoCodec (VideoCodec (Video (Options c)))), c)
      else
        (let c1 = emit (NewPeerConnection (pcConfig c)) c in
         case api_NewPeerConnection env (events c) (pcConfig c) of
           Inl err \<Rightarrow> (Some err, c1)
         | Inr p \<Rightarrow>
             (let ra = (if AudioEnabled (Audio (Options c1))
                        then pc_AddTransceiver env (events c1) p RTPCodecTypeAudio else None);
                  c2 = (if AudioEnabled (Audio (Options c1))
                        then emit (AddTransceiver p RTPCodecTypeAudio) c1 else c1)
              in case ra of
                   Some err \<Rightarrow> (Some err, c2)
                 | None \<Rightarrow>
                     (let rv = (if VideoEnabled (Video (Options c2))
                                then pc_AddTransceiver env (events c2) p RTPCodecTypeVideo else None);
                          c3 = (if VideoEnabled (Video (Options c2))
                                then emit (AddTransceiver p RTPCodecTypeVideo) c2 else c2)
                      in case rv of
                           Some err \<Rightarrow> (Some err, c3)
                         | None \<Rightarrow>
                             (let c4 = emit (OnSignalingStateChange p)
                                         (emit (OnICEConnectionStateChange p ConnectionICECallback)
                                            (emit (OnTrack p) c3))
                              in if pc c4 \<noteq> None
                                 then (None, emit (CallOnOpen (onOpenHandler c4) (authzMetadata c4))
                                               (c4\<lparr>pc := Some p\<rparr>))
                                 else (None, c4\<lparr>pc := Some p\<rparr>))))))"

text \<open>
  The closure given to \<^verbatim>\<open>pc.OnICEConnectionStateChange\<close>, run by the engine with the new state.
\<close>

definition onICEConnectionStateChange :: "Env \<Rightarrow> ICEConnectionState \<Rightarrow> Connection \<Rightarrow> Connection" where
  "onICEConnectionStateChange env st c =
     (if connectionState c \<noteq> st then
        (let c1 = c\<lparr>connectionState := st\<rparr> in
         if st = ICEConnectionStateConnected
         then (let c2 = c1\<lparr>isOffer := False\<rparr> in emit (CallOnConnect (onConnectHandler c2)) c2)
         else if st = ICEConnectionStateDisconnected \<or> st = ICEConnectionStateFailed
         then callOnDisconnect ''ICE-CONNECTION-STATE-FAILED'' None (Disconnect env c1)
         else c1)
      else c)"

definition sendOffer :: "Env \<Rightarrow> Connection \<Rightarrow> error option \<times> Connection" where
  "sendOffer env c =
     (case pc c of
        None \<Rightarrow> (None, c)
      | Some p \<Rightarrow>
          (let c1 = emit (CreateOffer p) c in
           case pc_CreateOffer env (events c) p of
             Inl err \<Rightarrow> (Some err, c1)
           | Inr offer \<Rightarrow>
               (let c2 = emit (SetLocalDescription p offer) c1;
                    c3 = (case pc_LocalDescription env (events c2) p of
                            None \<Rightarrow> c2
                          | Some d \<Rightarrow> sendSdp env d c2)
                in (None, c3\<lparr>isOffer := True\<rparr>))))"

definition createAnswer :: "Env \<Rightarrow> Connection \<Rightarrow> error option \<times> Connection" where
  "createAnswer env c =
     (case pc c of
        None \<Rightarrow> (None, c)
      | Some p \<Rightarrow>
          (let c1 = emit (CreateAnswer p) c in
           case pc_CreateAnswer env (events c) p of
             Inl err \<Rightarrow> (Some err, callOnDisconnect ''CREATE-ANSWER-ERROR'' (Some err) (Disconnect env c1))
           | Inr answer \<Rightarrow>
               (let c2 = emit (SetLocalDescription p answer) c1
                in (None, (case pc_LocalDescription env (events c2) p of
                             None \<Rightarrow> c2
                           | Some d \<Rightarrow> sendSdp env d c2)))))"

definition setAnswer :: "Env \<Rightarrow> SessionDescription \<Rightarrow> Connection \<Rightarrow> error option \<times> Connection" where
  "setAnswer env sessionDescription c =
     (case pc c of
        None \<Rightarrow> (None, c)
      | Some p \<Rightarrow>
          (pc_SetRemoteDescription env (events c) p sessionDescription,
           emit (SetRemoteDescription p sessionDescription) c))"

definition setOffer :: "Env \<Rightarrow> SessionDescription \<Rightarrow> Connection \<Rightarrow> error option \<times> Connection" where
  "setOffer env sessionDescription c =
     (case pc c of
        None \<Rightarrow> (None, c)
      | Some p \<Rightarrow>
          (let c1 = emit (SetRemoteDescription p sessionDescription) c in
           case pc_SetRemoteDescription env (events c) p sessionDescription of
             Some err \<Rightarrow> (Some err, callOnDisconnect ''CREATE-OFFER-ERROR'' (Some err) (Disconnect env c1))
           | None \<Rightarrow> createAnswer env c1))"

definition addICECandidate :: "Env \<Rightarrow> ICECandidateInit \<Rightarrow> Connection \<Rightarrow> Connection" where
  "addICECandidate env candidate c =
     (case pc c of
        None \<Rightarrow> c
      | Some p \<Rightarrow> emit (AddICECandidate p candidate) c)"

subsection \<open>Dispatch\<close>

text \<open>
  A call of \<^verbatim>\<open>handleMessage\<close> returns an error or nil with the connection changed, or panics:
  for the frame \<^verbatim>\<open>null\<close> the decoder sets the pointer \<^verbatim>\<open>message\<close> to nil, and the next statement
  reads \<^verbatim>\<open>message.Type\<close>.
\<close>

datatype Outcome = Panic | Return "error option" Connection

text \<open>The body of the loop over \<^verbatim>\<open>*acceptMsg.IceServers\<close>.\<close>

definition toICEServer :: "iceServer \<Rightarrow> ICEServer" where
  "toICEServer s =
     \<lparr>URLs = Urls s,
      Username = (case UserName s of None \<Rightarrow> [] | Some u \<Rightarrow> u),
      Credential = ServerCredential s,
      CredentialType = ICECredentialTypePassword\<rparr>"

text \<open>
  The cases of the switch, one definition each, in the order of the source. \<open>acceptFields\<close> is
  the part of the case \<^verbatim>\<open>accept\<close> that stores the message in the connection, before the session
  is created.
\<close>

definition acceptFields :: "acceptMessage \<Rightarrow> Connection \<Rightarrow> Connection" where
  "acceptFields acceptMsg c =
     (let c1 = c\<lparr>connectionID := ConnectionID acceptMsg,
                 authzMetadata := AuthzMetadata acceptMsg\<rparr>;
          c2 = (case IceServers acceptMsg of
                  None \<Rightarrow> c1
                | Some l \<Rightarrow>
                    if length l \<noteq> 0
                    then c1\<lparr>pcConfig := (pcConfig c1)\<lparr>ICEServers := map toICEServer l\<rparr>\<rparr>
                    else c1)
      in c2\<lparr>isExistClient := IsExistClient acceptMsg\<rparr>)"

definition handleAccept :: "Env \<Rightarrow> string \<Rightarrow> Connection \<Rightarrow> Outcome" where
  "handleAccept env rawMessage c =
     (case unmarshal_accept env rawMessage of
        Inl err \<Rightarrow> Return (Some err) c
      | Inr acceptMsg \<Rightarrow>
          (let c3 = acceptFields acceptMsg c;
               c4 = snd (createPeerConnection env c3)
           in if isExistClient c4
              then (case sendOffer env c4 of (r, c5) \<Rightarrow> Return r c5)
              else Return None c4))"

definition handleReject :: "Env \<Rightarrow> string \<Rightarrow> Connection \<Rightarrow> Outcome" where
  "handleReject env rawMessage c =
     (case unmarshal_reject env rawMessage of
        Inl err \<Rightarrow> Return (Some err) c
      | Inr rejectMsg \<Rightarrow>
          (let rejectReason = (if Reason rejectMsg = [] then ''REJECTED'' else Reason rejectMsg)
           in Return None (callOnDisconnect rejectReason None (Disconnect env c))))"

definition handleOffer :: "Env \<Rightarrow> string \<Rightarrow> Connection \<Rightarrow> Outcome" where
  "handleOffer env rawMessage c =
     (case unmarshal_sdp env rawMessage of
        Inl err \<Rightarrow> Return (Some err) c
      | Inr offerMsg \<Rightarrow>
          (let c1 = (case pc c of
                       None \<Rightarrow> c
                     | Some p \<Rightarrow>
                         if pc_SignalingState env (events c) p = SignalingStateHaveLocalOffer
                         then snd (createPeerConnection env c)
                         else c)
           in case setOffer env offerMsg c1 of (r, c2) \<Rightarrow> Return r c2))"

definition handleAnswer :: "Env \<Rightarrow> string \<Rightarrow> Connection \<Rightarrow> Outcome" where
  "handleAnswer env rawMessage c =
     (case unmarshal_sdp env rawMessage of
        Inl err \<Rightarrow> Return (Some err) c
      | Inr answerMsg \<Rightarrow> (case setAnswer env answerMsg c of (r, c1) \<Rightarrow> Return r c1))"

definition handleCandidate :: "Env \<Rightarrow> string \<Rightarrow> Connection \<Rightarrow> Outcome" where
  "handleCandidate env rawMessage c =
     (case unmarshal_candidate env rawMessage of
        Inl err \<Rightarrow> Return (Some err) c
      | Inr candidateMsg \<Rightarrow>
          (case ICECandidate candidateMsg of
             None \<Rightarrow> Return None c
           | Some candidate \<Rightarrow> Return None (addICECandidate env candidate c)))"

definition handleMessage :: "Env \<Rightarrow> string \<Rightarrow> Connection \<Rightarrow> Outcome" where
  "handleMessage env rawMessage c =
     (case json_Unmarshal_type env rawMessage of
        JSONError \<Rightarrow> Return (Some errorInvalidJSON) c
      | JSONNull \<Rightarrow> Panic
      | Tag t \<Rightarrow>
          if t = ''ping'' then Return None (snd (sendPongMessage env c))
          else if t = ''bye'' then Return None (Disconnect env (emit (CallOnBye (onByeHandler c)) c))
          else if t = ''accept'' then handleAccept env rawMessage c
          else if t = ''reject'' then handleReject env rawMessage c
          else if t = ''offer'' then handleOffer env rawMessage c
          else if t = ''answer'' then handleAnswer env rawMessage c
          else if t = ''candidate'' then handleCandidate env rawMessage c
          else Return (Some errorInvalidMessageType) c)"

text \<open>
  The goroutine \<^verbatim>\<open>main\<close>, given the frames that reach it through the channel before the channel
  is closed. It ends when the channel is closed or at the first frame whose handling returns an
  error; the deferred \<^verbatim>\<open>cancel()\<close> runs in both cases. A panic in \<^verbatim>\<open>handleMessage\<close> is not
  recovered.
\<close>

datatype Exit = ExitPanic | ExitChannelClosed Connection | ExitError error Connection

fun main :: "Env \<Rightarrow> string list \<Rightarrow> Connection \<Rightarrow> Exit" where
  "main env [] c = ExitChannelClosed (emit Cancel c)"
| "main env (rawMessage # rest) c =
     (case handleMessage env rawMessage c of
        Panic \<Rightarrow> ExitPanic
      | Return None c1 \<Rightarrow> main env rest c1
      | Return (Some err) c1 \<Rightarrow> ExitError err (emit Cancel c1))"

text \<open>
  The loop of the goroutine \<^verbatim>\<open>recv\<close>, given the results of its successive calls of
  \<^verbatim>\<open>c.ws.Read\<close> (the list ends where the loop finds \<^verbatim>\<open>c.ws\<close> nil): what it puts on the channel
  before it closes the channel. It stops at the first read that fails.
\<close>

fun recv :: "(error + string) list \<Rightarrow> string list" where
  "recv [] = []"
| "recv (r # rest) =
     (case r of
        Inl err \<Rightarrow> []
      | Inr rawMessage \<Rightarrow> rawMessage # recv rest)"

text \<open>
  Modelled from the spec: "Read limit: individual frames are capped (1 MiB)". The read of one
  frame is made by the WebSocket library, which fails the read of a frame longer than the
  limit of the connection. Under src/ the constant \<^verbatim>\<open>readLimit\<close> is declared and nothing applies
  it to the connection, so the limit is an argument here. This definition is used in one
  example only.
\<close>

definition ws_Read :: "nat \<Rightarrow> string \<Rightarrow> error + string" where
  "ws_Read limit frame =
     (if limit < length frame then Inl (External ''read limited'') else Inr frame)"

text \<open>What \<^verbatim>\<open>recv\<close> does once \<^verbatim>\<open>main\<close> has ended.\<close>

definition recvExit :: "Env \<Rightarrow> Connection \<Rightarrow> Connection" where
  "recvExit env c = callOnDisconnect ''EXIT-RECV'' None (Disconnect env c)"

text \<open>The messages handed to \<^verbatim>\<open>wsjson.Write\<close>, in order.\<close>

fun sent :: "Event list \<Rightarrow> OutMsg list" where
  "sent [] = []"
| "sent (Write w v # es) = v # sent es"
| "sent (e # es) = sent es"

text \<open>The session descriptions among them.\<close>

fun sentSdp :: "OutMsg list \<Rightarrow> SessionDescription list" where
  "sentSdp [] = []"
| "sentSdp (SdpMsg d # vs) = d # sentSdp vs"
| "sentSdp (v # vs) = sentSdp vs"

section \<open>A scripted environment for the examples\<close>

text \<open>
  Modelled from the spec: the constructor of a connection is not under src/. A new connection
  has the derived state that \<^verbatim>\<open>Disconnect\<close> restores, no transport and no session, and the
  fallback relay servers of its options as the servers of its session configuration
  (section 3 of the spec). It is used for the examples only.
\<close>

definition NewConnection :: "string \<Rightarrow> string \<Rightarrow> ConnectionOptions \<Rightarrow> Connection" where
  "NewConnection signalingURL roomID options =
     \<lparr>SignalingURL = signalingURL,
      RoomID = roomID,
      Options = options,
      AuthnMetadata = None,
      authzMetadata = None,
      connectionState = ICEConnectionStateNew,
      connectionID = [],
      ws = None,
      pc = None,
      pcConfig = \<lparr>ICEServers = OptionsICEServers options\<rparr>,
      isOffer = False,
      isExistClient = False,
      onOpenHandler = NoOp,
      onConnectHandler = NoOp,
      onDisconnectHandler = NoOp,
      onTrackPacketHandler = NoOp,
      onByeHandler = NoOp,
      events = []\<rparr>"

text \<open>
  The examples run against \<open>labEnv\<close>: a small engine and a small wire format, enough to
  evaluate the operations on concrete inputs. A frame is a tag, a space and an argument; the
  frame \<open>?\<close> does not parse. Dialling the empty address fails. A session is named by the
  number of events before its creation; its signaling state and its local description are read
  off the events; the engine refuses the remote description \<open>bad\<close> and accepts any other.
\<close>

definition tagOf :: "string \<Rightarrow> string" where
  "tagOf raw = takeWhile (\<lambda>x. x \<noteq> CHR '' '') raw"

definition argOf :: "string \<Rightarrow> string" where
  "argOf raw = drop 1 (dropWhile (\<lambda>x. x \<noteq> CHR '' '') raw)"

definition labSignalingStep :: "nat \<Rightarrow> SignalingState \<Rightarrow> Event \<Rightarrow> SignalingState" where
  "labSignalingStep p st e =
     (if st = SignalingStateClosed then st
      else if e = ClosePC p then SignalingStateClosed
      else (case e of
              SetLocalDescription q d \<Rightarrow>
                if q \<noteq> p then st
                else if SDType d = SDPTypeOffer then SignalingStateHaveLocalOffer
                else SignalingStateStable
            | SetRemoteDescription q d \<Rightarrow>
                if q \<noteq> p \<or> SDP d = ''bad'' then st
                else if SDType d = SDPTypeOffer then SignalingStateHaveRemoteOffer
                else SignalingStateStable
            | _ \<Rightarrow> st))"

definition labLocalStep :: "nat \<Rightarrow> SessionDescription option \<Rightarrow> Event \<Rightarrow> SessionDescription option" where
  "labLocalStep p r e =
     (case e of
        SetLocalDescription q d \<Rightarrow> if q = p then Some d else r
      | _ \<Rightarrow> r)"

definition labAccept1 :: acceptMessage where
  "labAccept1 =
     \<lparr>ConnectionID = ''c1'', AuthzMetadata = None, IceServers = None, IsExistClient = False\<rparr>"

definition labAccept2 :: acceptMessage where
  "labAccept2 =
     \<lparr>ConnectionID = ''c2'', AuthzMetadata = Some ''m'',
      IceServers = Some [\<lparr>Urls = [''turn:relay''], UserName = Some ''u'',
                           ServerCredential = Some ''p''\<rparr>],
      IsExistClient = True\<rparr>"

definition labEnv :: Env where
  "labEnv =
     \<lparr>websocket_Dial = (\<lambda>l url. if url = [] then Inl (External ''dial'') else Inr (length l)),
      wsjson_Write = (\<lambda>l w v. None),
      api_NewPeerConnection = (\<lambda>l cfg. Inr (length l)),
      pc_AddTransceiver = (\<lambda>l p k. None),
      pc_SignalingState = (\<lambda>l p. foldl (labSignalingStep p) SignalingStateStable l),
      pc_CreateOffer = (\<lambda>l p. Inr \<lparr>SDType = SDPTypeOffer, SDP = ''local offer''\<rparr>),
      pc_CreateAnswer = (\<lambda>l p. Inr \<lparr>SDType = SDPTypeAnswer, SDP = ''local answer''\<rparr>),
      pc_LocalDescription = (\<lambda>l p. foldl (labLocalStep p) None l),
      pc_SetRemoteDescription = (\<lambda>l p d. if SDP d = ''bad'' then Some (External ''sdp'') else None),
      json_Unmarshal_type =
        (\<lambda>raw. if raw = ''null'' then JSONNull
               else if tagOf raw = ''?'' then JSONError
               else Tag (tagOf raw)),
      unmarshal_accept =
        (\<lambda>raw. if argOf raw = ''c1'' then Inr labAccept1
               else if argOf raw = ''c2'' then Inr labAccept2
               else Inl errorInvalidJSON),
      unmarshal_reject = (\<lambda>raw. Inr \<lparr>Reason = argOf raw\<rparr>),
      unmarshal_sdp =
        (\<lambda>raw. Inr \<lparr>SDType = (if tagOf raw = ''offer'' then SDPTypeOffer else SDPTypeAnswer),
                      SDP = argOf raw\<rparr>),
      unmarshal_candidate =
        (\<lambda>raw. Inr \<lparr>ICECandidate =
                        (if argOf raw = [] then None
                         else Some \<lparr>Candidate = argOf raw, SDPMid = None, SDPMLineIndex = None\<rparr>)\<rparr>),
      runtime_GOOS = ''linux'',
      runtime_GOARCH = ''amd64''\<rparr>"

definition labFallback :: ICEServer where
  "labFallback =
     \<lparr>URLs = [''stun:fallback''], Username = [], Credential = None,
      CredentialType = ICECredentialTypePassword\<rparr>"

definition labOptions :: "string \<Rightarrow> ConnectionOptions" where
  "labOptions codec =
     \<lparr>Audio = \<lparr>AudioDirection = ''recvonly'', AudioEnabled = True\<rparr>,
      Video = \<lparr>VideoCodec = codec, VideoDirection = ''recvonly'', VideoEnabled = True\<rparr>,
      ClientID = ''me'',
      OptionsICEServers = [labFallback],
      SignalingKey = []\<rparr>"

text \<open>A new connection; the same after \<^verbatim>\<open>Connect\<close>, with the transport open and no session.\<close>

definition labNew :: "string \<Rightarrow> Connection" where
  "labNew codec = NewConnection ''wss://relay'' ''room'' (labOptions codec)"

definition labConnected :: "string \<Rightarrow> Connection" where
  "labConnected codec = snd (Connect labEnv (labNew codec))"

text \<open>
  The connected connection after the frame \<open>accept c1\<close> (no peer was there: a session and no
  offer), and after the frame \<open>accept c2\<close> (a peer was there: a session whose offer is pending).
\<close>

definition labSession :: Connection where
  "labSession = snd (createPeerConnection labEnv (acceptFields labAccept1 (labConnected ''VP8'')))"

definition labOffering :: Connection where
  "labOffering =
     snd (sendOffer labEnv
            (snd (createPeerConnection labEnv (acceptFields labAccept2 (labConnected ''VP8'')))))"

text \<open>
  The connection \<open>labOffering\<close>, whose session was configured with the relay's servers, after
  the consumer has called \<^verbatim>\<open>Disconnect\<close>, the poller has cleared the session handle, and the
  consumer has called \<^verbatim>\<open>Connect\<close> again.
\<close>

definition labReconnected :: Connection where
  "labReconnected =
     snd (Connect labEnv (closePollerTick labEnv (Disconnect labEnv labOffering)))"

section \<open>Properties\<close>

subsection \<open>Basic facts\<close>

lemma emit_fields [simp]:
  "SignalingURL (emit e c) = SignalingURL c"
  "RoomID (emit e c) = RoomID c"
  "Options (emit e c) = Options c"
  "AuthnMetadata (emit e c) = AuthnMetadata c"
  "authzMetadata (emit e c) = authzMetadata c"
  "connectionState (emit e c) = connectionState c"
  "connectionID (emit e c) = connectionID c"
  "ws (emit e c) = ws c"
  "pc (emit e c) = pc c"
  "pcConfig (emit e c) = pcConfig c"
  "isOffer (emit e c) = isOffer c"
  "isExistClient (emit e c) = isExistClient c"
  "onOpenHandler (emit e c) = onOpenHandler c"
  "onConnectHandler (emit e c) = onConnectHandler c"
  "onDisconnectHandler (emit e c) = onDisconnectHandler c"
  "onTrackPacketHandler (emit e c) = onTrackPacketHandler c"
  "onByeHandler (emit e c) = onByeHandler c"
  "events (emit e c) = events c @ [e]"
  by (simp_all add: emit_def)

lemma registerMsg_emit [simp]:
  "registerMsg env (emit e c) = registerMsg env c"
  "registerMsg env (c\<lparr>ws := x\<rparr>) = registerMsg env c"
  "registerMsg env (c\<lparr>events := y\<rparr>) = registerMsg env c"
  by (simp_all add: registerMsg_def)

lemmas lab_defs =
  labEnv_def labNew_def labConnected_def labOptions_def labFallback_def NewConnection_def
  labAccept1_def labAccept2_def tagOf_def argOf_def labSignalingStep_def labLocalStep_def

lemmas connect_defs =
  Connect_def signaling_def openWS_def sendRegisterMessage_def sendMsg_def registerMsg_def

lemma labConnected_eq:
  "labConnected codec =
     (labNew codec)\<lparr>ws := Some 0,
       events := [Dial ''wss://relay'', GoRecv, GoMain,
                  Write 0 (RegisterMsg (registerMsg labEnv (labNew codec)))]\<rparr>"
  by (simp add: lab_defs connect_defs emit_def)

lemma labConnected_fields [simp]:
  "ws (labConnected codec) = Some 0"
  "pc (labConnected codec) = None"
  "Options (labConnected codec) = labOptions codec"
  "onDisconnectHandler (labConnected codec) = NoOp"
  "events (labConnected codec) =
     [Dial ''wss://relay'', GoRecv, GoMain, Write 0 (RegisterMsg (registerMsg labEnv (labNew codec)))]"
  by (simp_all add: labConnected_eq) (simp_all add: labNew_def NewConnection_def)

lemma lab_tags [simp]:
  "json_Unmarshal_type labEnv ''offer remote'' = Tag ''offer''"
  "json_Unmarshal_type labEnv ''answer remote'' = Tag ''answer''"
  "json_Unmarshal_type labEnv ''candidate host'' = Tag ''candidate''"
  "json_Unmarshal_type labEnv ''accept c1'' = Tag ''accept''"
  "json_Unmarshal_type labEnv ''accept c2'' = Tag ''accept''"
  "json_Unmarshal_type labEnv ''reject full'' = Tag ''reject''"
  "json_Unmarshal_type labEnv ''reject'' = Tag ''reject''"
  "json_Unmarshal_type labEnv ''offer bad'' = Tag ''offer''"
  "json_Unmarshal_type labEnv ''hello'' = Tag ''hello''"
  "json_Unmarshal_type labEnv ''?'' = JSONError"
  "json_Unmarshal_type labEnv ''null'' = JSONNull"
  by (simp_all add: labEnv_def tagOf_def)

lemma lab_decoders [simp]:
  "unmarshal_sdp labEnv ''offer remote'' = Inr \<lparr>SDType = SDPTypeOffer, SDP = ''remote''\<rparr>"
  "unmarshal_sdp labEnv ''offer bad'' = Inr \<lparr>SDType = SDPTypeOffer, SDP = ''bad''\<rparr>"
  "unmarshal_sdp labEnv ''answer remote'' = Inr \<lparr>SDType = SDPTypeAnswer, SDP = ''remote''\<rparr>"
  "unmarshal_candidate labEnv ''candidate host'' =
     Inr \<lparr>ICECandidate = Some \<lparr>Candidate = ''host'', SDPMid = None, SDPMLineIndex = None\<rparr>\<rparr>"
  "unmarshal_accept labEnv ''accept c1'' = Inr labAccept1"
  "unmarshal_accept labEnv ''accept c2'' = Inr labAccept2"
  "unmarshal_reject labEnv ''reject full'' = Inr \<lparr>Reason = ''full''\<rparr>"
  "unmarshal_reject labEnv ''reject'' = Inr \<lparr>Reason = []\<rparr>"
  by (simp_all add: labEnv_def tagOf_def argOf_def)

lemma acceptFields_fields [simp]:
  "ws (acceptFields m c) = ws c"
  "pc (acceptFields m c) = pc c"
  "Options (acceptFields m c) = Options c"
  "events (acceptFields m c) = events c"
  "isExistClient (acceptFields m c) = IsExistClient m"
  "connectionID (acceptFields m c) = ConnectionID m"
  "authzMetadata (acceptFields m c) = AuthzMetadata m"
  "onOpenHandler (acceptFields m c) = onOpenHandler c"
  "onDisconnectHandler (acceptFields m c) = onDisconnectHandler c"
  by (simp_all add: acceptFields_def Let_def split: option.split)

lemma signaling_result:
  assumes "ws c = None"
  shows "signaling env c =
           (case websocket_Dial env (events c) (SignalingURL c) of
              Inl err \<Rightarrow> (Some (WsOpenError err), emit (Dial (SignalingURL c)) c)
            | Inr w \<Rightarrow>
                (wsjson_Write env (events c @ [Dial (SignalingURL c), GoRecv, GoMain]) w
                   (RegisterMsg (registerMsg env c)),
                 c\<lparr>ws := Some w,
                    events := events c @ [Dial (SignalingURL c), GoRecv, GoMain,
                                          Write w (RegisterMsg (registerMsg env c))]\<rparr>))"
  using assms
  by (simp add: signaling_def openWS_def sendRegisterMessage_def sendMsg_def emit_def
      split: sum.split)

lemma closePeerConnection_fields [simp]:
  "SignalingURL (closePeerConnection env c) = SignalingURL c"
  "RoomID (closePeerConnection env c) = RoomID c"
  "Options (closePeerConnection env c) = Options c"
  "AuthnMetadata (closePeerConnection env c) = AuthnMetadata c"
  "ws (closePeerConnection env c) = ws c"
  "pcConfig (closePeerConnection env c) = pcConfig c"
  by (simp_all add: closePeerConnection_def split: option.split)

lemma closePeerConnection_pc:
  "pc (closePeerConnection env c) =
     (case pc c of
        None \<Rightarrow> None
      | Some p \<Rightarrow> if pc_SignalingState env (events c) p = SignalingStateClosed then None else Some p)"
  by (simp add: closePeerConnection_def split: option.split)

lemma closePeerConnection_events:
  "events (closePeerConnection env c) =
     events c @
     (case pc c of
        None \<Rightarrow> []
      | Some p \<Rightarrow>
          if pc_SignalingState env (events c) p = SignalingStateClosed then []
          else [OnICEConnectionStateChange p NoOpICECallback, GoClosePoller p, ClosePC p])"
  by (simp add: closePeerConnection_def split: option.split)

lemma closeWebSocketConnection_fields [simp]:
  "SignalingURL (closeWebSocketConnection c) = SignalingURL c"
  "RoomID (closeWebSocketConnection c) = RoomID c"
  "Options (closeWebSocketConnection c) = Options c"
  "AuthnMetadata (closeWebSocketConnection c) = AuthnMetadata c"
  "ws (closeWebSocketConnection c) = None"
  "pc (closeWebSocketConnection c) = pc c"
  "pcConfig (closeWebSocketConnection c) = pcConfig c"
  by (simp_all add: closeWebSocketConnection_def split: option.split)

lemma closeWebSocketConnection_events:
  "events (closeWebSocketConnection c) =
     events c @ (case ws c of None \<Rightarrow> [] | Some w \<Rightarrow> [CloseWS w])"
  by (simp add: closeWebSocketConnection_def split: option.split)

lemma Disconnect_fields [simp]:
  "SignalingURL (Disconnect env c) = SignalingURL c"
  "RoomID (Disconnect env c) = RoomID c"
  "Options (Disconnect env c) = Options c"
  "AuthnMetadata (Disconnect env c) = AuthnMetadata c"
  "pcConfig (Disconnect env c) = pcConfig c"
  "ws (Disconnect env c) = None"
  "authzMetadata (Disconnect env c) = None"
  "connectionID (Disconnect env c) = []"
  "connectionState (Disconnect env c) = ICEConnectionStateNew"
  "isOffer (Disconnect env c) = False"
  "isExistClient (Disconnect env c) = False"
  "onOpenHandler (Disconnect env c) = NoOp"
  "onConnectHandler (Disconnect env c) = NoOp"
  "onDisconnectHandler (Disconnect env c) = NoOp"
  "onTrackPacketHandler (Disconnect env c) = NoOp"
  "onByeHandler (Disconnect env c) = NoOp"
  by (simp_all add: Disconnect_def Let_def)

lemma Disconnect_pc:
  "pc (Disconnect env c) =
     (case pc c of
        None \<Rightarrow> None
      | Some p \<Rightarrow> if pc_SignalingState env (events c) p = SignalingStateClosed then None else Some p)"
  by (simp add: Disconnect_def Let_def closePeerConnection_pc)

lemma Disconnect_events:
  "events (Disconnect env c) =
     events c @
     (case pc c of
        None \<Rightarrow> []
      | Some p \<Rightarrow>
          if pc_SignalingState env (events c) p = SignalingStateClosed then []
          else [OnICEConnectionStateChange p NoOpICECallback, GoClosePoller p, ClosePC p]) @
     (case ws c of None \<Rightarrow> [] | Some w \<Rightarrow> [CloseWS w])"
  by (simp add: Disconnect_def Let_def closeWebSocketConnection_events closePeerConnection_events)


lemma labEnv_fields [simp]:
  "websocket_Dial labEnv l url = (if url = [] then Inl (External ''dial'') else Inr (length l))"
  "wsjson_Write labEnv l w v = None"
  "api_NewPeerConnection labEnv l cfg = Inr (length l)"
  "pc_AddTransceiver labEnv l p k = None"
  "pc_SignalingState labEnv l p = foldl (labSignalingStep p) SignalingStateStable l"
  "pc_CreateOffer labEnv l p = Inr \<lparr>SDType = SDPTypeOffer, SDP = ''local offer''\<rparr>"
  "pc_CreateAnswer labEnv l p = Inr \<lparr>SDType = SDPTypeAnswer, SDP = ''local answer''\<rparr>"
  "pc_LocalDescription labEnv l p = foldl (labLocalStep p) None l"
  "pc_SetRemoteDescription labEnv l p d = (if SDP d = ''bad'' then Some (External ''sdp'') else None)"
  by (simp_all add: labEnv_def)

lemma labRegister:
  "registerMsg labEnv (labNew codec) =
     \<lparr>RegisterRoomID = ''room'', RegisterClientID = ''me'', RegisterAuthnMetadata = None,
      RegisterSignalingKey = None, AyameClient = Some ''go-ayame v0.1.0'',
      Environment = Some ''linux amd64''\<rparr>"
  by (simp add: registerMsg_def labNew_def NewConnection_def labOptions_def labEnv_def)

lemma labSession_fields [simp]:
  "ws labSession = Some 0"
  "pc labSession = Some 4"
  "Options labSession = labOptions ''VP8''"
  "pcConfig labSession = \<lparr>ICEServers = [labFallback]\<rparr>"
  "connectionID labSession = ''c1''"
  "events labSession =
     [Dial ''wss://relay'', GoRecv, GoMain, Write 0 (RegisterMsg (registerMsg labEnv (labNew ''VP8''))),
      NewPeerConnection \<lparr>ICEServers = [labFallback]\<rparr>,
      AddTransceiver 4 RTPCodecTypeAudio, AddTransceiver 4 RTPCodecTypeVideo, OnTrack 4,
      OnICEConnectionStateChange 4 ConnectionICECallback, OnSignalingStateChange 4]"
  by (simp_all add: labSession_def createPeerConnection_def Let_def labOptions_def)
     (simp_all add: acceptFields_def labAccept1_def labConnected_eq labNew_def NewConnection_def
        labOptions_def)


lemma handleMessage_reject:
  assumes "json_Unmarshal_type env raw = Tag ''reject''"
    and "unmarshal_reject env raw = Inr m"
  shows "handleMessage env raw c =
           Return None
             (emit (CallOnDisconnect NoOp (if Reason m = [] then ''REJECTED'' else Reason m) None)
                (Disconnect env c))"
  using assms by (simp add: handleMessage_def handleReject_def callOnDisconnect_def)

lemma sent_append [simp]: "sent (xs @ ys) = sent xs @ sent ys"
  by (induction xs rule: sent.induct) simp_all

lemma createPeerConnection_fields [simp]:
  "ws (snd (createPeerConnection env c)) = ws c"
  "Options (snd (createPeerConnection env c)) = Options c"
  "pcConfig (snd (createPeerConnection env c)) = pcConfig c"
  "isExistClient (snd (createPeerConnection env c)) = isExistClient c"
  "isOffer (snd (createPeerConnection env c)) = isOffer c"
  "connectionID (snd (createPeerConnection env c)) = connectionID c"
  "authzMetadata (snd (createPeerConnection env c)) = authzMetadata c"
  "onDisconnectHandler (snd (createPeerConnection env c)) = onDisconnectHandler c"
  by (simp_all add: createPeerConnection_def Let_def split: sum.split option.split)

lemma createPeerConnection_events:
  "\<exists>es. events (snd (createPeerConnection env c)) = events c @ es
        \<and> sent es = [] \<and> (\<forall>q. ClosePC q \<notin> set es)"
  by (simp add: createPeerConnection_def Let_def split: sum.split option.split)

lemma createPeerConnection_sent [simp]:
  "sent (events (snd (createPeerConnection env c))) = sent (events c)"
  using createPeerConnection_events [of env c] by auto

lemma createPeerConnection_calls_engine:
  assumes "VideoCodec (Video (Options c)) = ''VP8''"
  shows "\<exists>es. events (snd (createPeerConnection env c)) = events c @ NewPeerConnection (pcConfig c) # es"
  using assms
  by (simp add: createPeerConnection_def Let_def split: sum.split option.split)

lemma createPeerConnection_success:
  assumes "fst (createPeerConnection env c) = None"
  shows "VideoCodec (Video (Options c)) = ''VP8''
       \<and> (\<exists>p. api_NewPeerConnection env (events c) (pcConfig c) = Inr p
              \<and> pc (snd (createPeerConnection env c)) = Some p)"
proof -
  have v: "VideoCodec (Video (Options c)) = ''VP8''"
    using assms by (simp add: createPeerConnection_def split: if_splits)
  obtain p where p: "api_NewPeerConnection env (events c) (pcConfig c) = Inr p"
    using assms v
    by (cases "api_NewPeerConnection env (events c) (pcConfig c)")
       (simp_all add: createPeerConnection_def Let_def)
  have "pc (snd (createPeerConnection env c)) = Some p"
    using assms v p
    by (simp add: createPeerConnection_def Let_def split: option.splits if_splits)
  with v p show ?thesis by simp
qed

lemma sentSdp_append [simp]: "sentSdp (xs @ ys) = sentSdp xs @ sentSdp ys"
  by (induction xs rule: sentSdp.induct) simp_all

lemma sent_Disconnect [simp]: "sent (events (Disconnect env c)) = sent (events c)"
  by (simp add: Disconnect_events split: option.split)

lemma no_description_sent:
  assumes "json_Unmarshal_type env raw = Tag t"
    and "t \<noteq> ''offer''" and "t \<noteq> ''accept''"
    and "handleMessage env raw c = Return r c'"
  shows "sentSdp (sent (events c')) = sentSdp (sent (events c))"
proof -
  consider "t = ''ping''" | "t = ''bye''" | "t = ''reject''" | "t = ''answer''" | "t = ''candidate''"
    | "t \<notin> set [''ping'', ''bye'', ''accept'', ''reject'', ''offer'', ''answer'', ''candidate'']"
    using assms(2,3) by auto
  then show ?thesis
  proof cases
    case 1
    with assms show ?thesis
      by (auto simp add: handleMessage_def sendPongMessage_def sendMsg_def split: option.splits)
  next
    case 2
    with assms show ?thesis by (auto simp add: handleMessage_def)
  next
    case 3
    with assms show ?thesis
      by (auto simp add: handleMessage_def handleReject_def callOnDisconnect_def split: sum.splits)
  next
    case 4
    with assms show ?thesis
      by (auto simp add: handleMessage_def handleAnswer_def setAnswer_def split: sum.splits option.splits)
  next
    case 5
    with assms show ?thesis
      by (auto simp add: handleMessage_def handleCandidate_def addICECandidate_def
          split: sum.splits option.splits)
  next
    case 6
    with assms show ?thesis by (auto simp add: handleMessage_def)
  qed
qed

lemma labOffering_created:
  "createPeerConnection labEnv (acceptFields labAccept2 (labConnected ''VP8'')) =
     (None,
      (acceptFields labAccept2 (labConnected ''VP8''))
        \<lparr>pc := Some 4,
         events := events (labConnected ''VP8'') @
           [NewPeerConnection \<lparr>ICEServers = [toICEServer \<lparr>Urls = [''turn:relay''], UserName = Some ''u'',
                                                            ServerCredential = Some ''p''\<rparr>]\<rparr>,
            AddTransceiver 4 RTPCodecTypeAudio, AddTransceiver 4 RTPCodecTypeVideo, OnTrack 4,
            OnICEConnectionStateChange 4 ConnectionICECallback, OnSignalingStateChange 4]\<rparr>)"
  by (simp add: createPeerConnection_def Let_def labOptions_def emit_def)
     (simp add: acceptFields_def labAccept2_def)

lemma labOffering_eq:
  "labOffering =
     (acceptFields labAccept2 (labConnected ''VP8''))
        \<lparr>pc := Some 4,
         events := events (labConnected ''VP8'') @
           [NewPeerConnection \<lparr>ICEServers = [toICEServer \<lparr>Urls = [''turn:relay''], UserName = Some ''u'',
                                                            ServerCredential = Some ''p''\<rparr>]\<rparr>,
            AddTransceiver 4 RTPCodecTypeAudio, AddTransceiver 4 RTPCodecTypeVideo, OnTrack 4,
            OnICEConnectionStateChange 4 ConnectionICECallback, OnSignalingStateChange 4,
            CreateOffer 4, SetLocalDescription 4 \<lparr>SDType = SDPTypeOffer, SDP = ''local offer''\<rparr>,
            Write 0 (SdpMsg \<lparr>SDType = SDPTypeOffer, SDP = ''local offer''\<rparr>)],
         isOffer := True\<rparr>"
  by (simp add: labOffering_def labOffering_created sendOffer_def Let_def sendSdp_def sendMsg_def
      emit_def labLocalStep_def)

lemma labOffering_fields [simp]:
  "ws labOffering = Some 0"
  "pc labOffering = Some 4"
  "Options labOffering = labOptions ''VP8''"
  "onOpenHandler labOffering = NoOp"
  "onDisconnectHandler labOffering = NoOp"
  "authzMetadata labOffering = Some ''m''"
  "pcConfig labOffering =
     \<lparr>ICEServers = [toICEServer \<lparr>Urls = [''turn:relay''], UserName = Some ''u'',
                                     ServerCredential = Some ''p''\<rparr>]\<rparr>"
  "events labOffering =
     [Dial ''wss://relay'', GoRecv, GoMain, Write 0 (RegisterMsg (registerMsg labEnv (labNew ''VP8''))),
      NewPeerConnection \<lparr>ICEServers = [toICEServer \<lparr>Urls = [''turn:relay''], UserName = Some ''u'',
                                                      ServerCredential = Some ''p''\<rparr>]\<rparr>,
      AddTransceiver 4 RTPCodecTypeAudio, AddTransceiver 4 RTPCodecTypeVideo, OnTrack 4,
      OnICEConnectionStateChange 4 ConnectionICECallback, OnSignalingStateChange 4,
      CreateOffer 4, SetLocalDescription 4 \<lparr>SDType = SDPTypeOffer, SDP = ''local offer''\<rparr>,
      Write 0 (SdpMsg \<lparr>SDType = SDPTypeOffer, SDP = ''local offer''\<rparr>)]"
  by (simp_all add: labOffering_eq)
     (simp_all add: acceptFields_def labAccept2_def labConnected_eq labNew_def NewConnection_def)

lemma labOffering_state [simp]:
  "pc_SignalingState labEnv (events labOffering) 4 = SignalingStateHaveLocalOffer"
  by (simp add: labSignalingStep_def)

lemma labGlare_created:
  "createPeerConnection labEnv labOffering =
     (None,
      labOffering
        \<lparr>pc := Some 13,
         events := events labOffering @
           [NewPeerConnection (pcConfig labOffering),
            AddTransceiver 13 RTPCodecTypeAudio, AddTransceiver 13 RTPCodecTypeVideo, OnTrack 13,
            OnICEConnectionStateChange 13 ConnectionICECallback, OnSignalingStateChange 13,
            CallOnOpen NoOp (Some ''m'')]\<rparr>)"
  by (simp add: createPeerConnection_def Let_def labOptions_def emit_def)

lemma acceptFields_pcConfig:
  "pcConfig (acceptFields m c) =
     (case IceServers m of
        None \<Rightarrow> pcConfig c
      | Some l \<Rightarrow> if l = [] then pcConfig c else \<lparr>ICEServers = map toICEServer l\<rparr>)"
  by (simp add: acceptFields_def split: option.split)

lemma labOffering_disconnected:
  "pc (Disconnect labEnv labOffering) = Some 4"
  "events (Disconnect labEnv labOffering) =
     events labOffering @
     [OnICEConnectionStateChange 4 NoOpICECallback, GoClosePoller 4, ClosePC 4, CloseWS 0]"
  by (simp_all add: Disconnect_pc Disconnect_events del: labEnv_fields(5) labOffering_fields(8))

lemma labOffering_polled:
  "closePollerTick labEnv (Disconnect labEnv labOffering) = (Disconnect labEnv labOffering)\<lparr>pc := None\<rparr>"
  by (simp add: closePollerTick_def labOffering_disconnected labSignalingStep_def)

lemma labReconnected_fields [simp]:
  "ws labReconnected = Some 17"
  "pc labReconnected = None"
  "Options labReconnected = labOptions ''VP8''"
  "pcConfig labReconnected =
     \<lparr>ICEServers = [toICEServer \<lparr>Urls = [''turn:relay''], UserName = Some ''u'',
                                     ServerCredential = Some ''p''\<rparr>]\<rparr>"
  "events labReconnected =
     events labOffering @
     [OnICEConnectionStateChange 4 NoOpICECallback, GoClosePoller 4, ClosePC 4, CloseWS 0,
      Dial ''wss://relay'', GoRecv, GoMain,
      Write 17 (RegisterMsg (registerMsg labEnv (labNew ''VP8'')))]"
  "isExistClient labReconnected = False"
  by (simp_all add: labReconnected_def labOffering_polled Connect_def signaling_result
        labOffering_disconnected)
     (simp_all add: labOffering_eq acceptFields_def labAccept2_def labConnected_eq labNew_def
        NewConnection_def registerMsg_def)

lemma null_frame_panics:
  assumes "json_Unmarshal_type env raw = JSONNull"
  shows "handleMessage env raw c = Panic" and "main env (raw # rest) c = ExitPanic"
  using assms by (simp_all add: handleMessage_def)

subsection \<open>Connect\<close>

text \<open>
  Claim C7, as amended. \<^verbatim>\<open>Connect\<close> returns the error "connection already exists" and leaves the
  connection as it was whenever a transport or a session is stored. Otherwise it dials the
  signaling address and returns nil: when the dial fails, nothing else happens (no goroutine is
  started, no register message is written); when it succeeds, the transport is stored, the two
  goroutines are started and the register message is handed to the transport, in this order.
\<close>

theorem Connect_outcomes:
  "(ws c \<noteq> None \<or> pc c \<noteq> None \<longrightarrow> Connect env c = (Some ConnectionAlreadyExists, c))
   \<and> (ws c = None \<and> pc c = None \<longrightarrow>
        Connect env c =
          (case websocket_Dial env (events c) (SignalingURL c) of
             Inl err \<Rightarrow> (None, emit (Dial (SignalingURL c)) c)
           | Inr w \<Rightarrow>
               (None,
                c\<lparr>ws := Some w,
                   events := events c @ [Dial (SignalingURL c), GoRecv, GoMain,
                                         Write w (RegisterMsg (registerMsg env c))]\<rparr>)))"
  by (auto simp add: Connect_def signaling_result split: sum.split)

text \<open>An example of both cases of C7 in the scripted environment.\<close>

theorem Connect_outcomes_witness:
  "Connect labEnv (labConnected ''VP8'') = (Some ConnectionAlreadyExists, labConnected ''VP8'')
   \<and> Connect labEnv (labNew ''VP8'') =
       (None, (labNew ''VP8'')\<lparr>ws := Some 0,
                 events := [Dial ''wss://relay'', GoRecv, GoMain,
                            Write 0 (RegisterMsg (registerMsg labEnv (labNew ''VP8'')))]\<rparr>)"
proof -
  have a: "ws (labConnected ''VP8'') \<noteq> None \<or> pc (labConnected ''VP8'') \<noteq> None"
    by (simp add: labConnected_eq)
  have b: "ws (labNew ''VP8'') = None \<and> pc (labNew ''VP8'') = None"
    by (simp add: labNew_def NewConnection_def)
  have d: "websocket_Dial labEnv (events (labNew ''VP8'')) (SignalingURL (labNew ''VP8'')) = Inr 0"
    by (simp add: labNew_def NewConnection_def labEnv_def)
  have e: "events (labNew ''VP8'') = []" "SignalingURL (labNew ''VP8'') = ''wss://relay''"
    by (simp_all add: labNew_def NewConnection_def)
  from Connect_outcomes [of "labConnected ''VP8''" labEnv] a
  have 1: "Connect labEnv (labConnected ''VP8'') = (Some ConnectionAlreadyExists, labConnected ''VP8'')"
    by blast
  from Connect_outcomes [of "labNew ''VP8''" labEnv] b d e
  have 2: "Connect labEnv (labNew ''VP8'') =
       (None, (labNew ''VP8'')\<lparr>ws := Some 0,
                 events := [Dial ''wss://relay'', GoRecv, GoMain,
                            Write 0 (RegisterMsg (registerMsg labEnv (labNew ''VP8'')))]\<rparr>)"
    by simp
  from 1 2 show ?thesis by simp
qed

text \<open>
  Claim C7 as stated fails when the dial fails: \<^verbatim>\<open>Connect\<close> finds no transport and no session,
  and it neither stores a transport, nor starts a goroutine, nor writes a register message.
\<close>

theorem Connect_dial_failure_counterexample:
  "ws (NewConnection [] ''room'' (labOptions ''VP8'')) = None
   \<and> pc (NewConnection [] ''room'' (labOptions ''VP8'')) = None
   \<and> fst (Connect labEnv (NewConnection [] ''room'' (labOptions ''VP8''))) = None
   \<and> ws (snd (Connect labEnv (NewConnection [] ''room'' (labOptions ''VP8'')))) = None
   \<and> events (snd (Connect labEnv (NewConnection [] ''room'' (labOptions ''VP8'')))) = [Dial []]"
  by (simp add: NewConnection_def labEnv_def connect_defs emit_def)

text \<open>
  Claim C9. When no transport and no session is stored, \<^verbatim>\<open>Connect\<close> returns nil and leaves the
  connection as \<^verbatim>\<open>signaling\<close> left it, although \<^verbatim>\<open>signaling\<close> returns the error of a failed dial
  (wrapped) or of a failed write of the register message.
\<close>

theorem Connect_returns_nil_whatever_signaling_returns:
  assumes "ws c = None" and "pc c = None"
  shows "fst (Connect env c) = None
       \<and> snd (Connect env c) = snd (signaling env c)
       \<and> fst (signaling env c) =
           (case websocket_Dial env (events c) (SignalingURL c) of
              Inl err \<Rightarrow> Some (WsOpenError err)
            | Inr w \<Rightarrow>
                wsjson_Write env (events c @ [Dial (SignalingURL c), GoRecv, GoMain]) w
                  (RegisterMsg (registerMsg env c)))"
  using assms by (simp add: Connect_def signaling_result split: sum.split)

text \<open>An example of C9: the dial fails, \<^verbatim>\<open>signaling\<close> returns its error, \<^verbatim>\<open>Connect\<close> returns nil.\<close>

theorem Connect_returns_nil_witness:
  "ws (NewConnection [] ''room'' (labOptions ''VP8'')) = None
   \<and> pc (NewConnection [] ''room'' (labOptions ''VP8'')) = None
   \<and> fst (signaling labEnv (NewConnection [] ''room'' (labOptions ''VP8''))) = Some (WsOpenError (External ''dial''))
   \<and> fst (Connect labEnv (NewConnection [] ''room'' (labOptions ''VP8''))) = None"
proof -
  have h: "ws (NewConnection [] ''room'' (labOptions ''VP8'')) = None"
          "pc (NewConnection [] ''room'' (labOptions ''VP8'')) = None"
    by (simp_all add: NewConnection_def)
  have d: "websocket_Dial labEnv (events (NewConnection [] ''room'' (labOptions ''VP8'')))
             (SignalingURL (NewConnection [] ''room'' (labOptions ''VP8''))) = Inl (External ''dial'')"
    by (simp add: NewConnection_def labEnv_def)
  from Connect_returns_nil_whatever_signaling_returns [OF h, of labEnv] h d
  show ?thesis by simp
qed

subsection \<open>Messages that arrive without a session\<close>

text \<open>
  Claim C10. While no session is stored, \<^verbatim>\<open>setOffer\<close> and \<^verbatim>\<open>setAnswer\<close> return nil and
  \<^verbatim>\<open>addICECandidate\<close> returns, each leaving the connection (its events included, so no library
  call and no callback) as it was; an offer, answer or candidate frame that decodes is handled
  with the result nil, and the dispatch loop goes on with the next frame.
\<close>

theorem no_session_operations_do_nothing:
  assumes "pc c = None"
  shows "setOffer env sd c = (None, c)
       \<and> setAnswer env sd c = (None, c)
       \<and> addICECandidate env cand c = c
       \<and> (json_Unmarshal_type env raw = Tag ''offer'' \<and> unmarshal_sdp env raw = Inr sd
            \<longrightarrow> handleMessage env raw c = Return None c \<and> main env (raw # rest) c = main env rest c)
       \<and> (json_Unmarshal_type env raw = Tag ''answer'' \<and> unmarshal_sdp env raw = Inr sd
            \<longrightarrow> handleMessage env raw c = Return None c \<and> main env (raw # rest) c = main env rest c)
       \<and> (json_Unmarshal_type env raw = Tag ''candidate''
            \<and> unmarshal_candidate env raw = Inr \<lparr>ICECandidate = Some cand\<rparr>
            \<longrightarrow> handleMessage env raw c = Return None c \<and> main env (raw # rest) c = main env rest c)"
  using assms
  by (simp add: setOffer_def setAnswer_def addICECandidate_def handleMessage_def handleOffer_def
      handleAnswer_def handleCandidate_def)

text \<open>An example of C10: three such frames in a row, on a connection with no session.\<close>

theorem no_session_operations_do_nothing_witness:
  "pc (labConnected ''VP8'') = None
   \<and> handleMessage labEnv ''offer remote'' (labConnected ''VP8'') = Return None (labConnected ''VP8'')
   \<and> handleMessage labEnv ''answer remote'' (labConnected ''VP8'') = Return None (labConnected ''VP8'')
   \<and> handleMessage labEnv ''candidate host'' (labConnected ''VP8'') = Return None (labConnected ''VP8'')
   \<and> main labEnv [''offer remote'', ''answer remote'', ''candidate host''] (labConnected ''VP8'')
       = ExitChannelClosed (emit Cancel (labConnected ''VP8''))"
proof -
  have h: "pc (labConnected ''VP8'') = None" by simp
  note o = no_session_operations_do_nothing [OF h, of labEnv "\<lparr>SDType = SDPTypeOffer, SDP = ''remote''\<rparr>" _ "''offer remote''"]
  note a = no_session_operations_do_nothing [OF h, of labEnv "\<lparr>SDType = SDPTypeAnswer, SDP = ''remote''\<rparr>" _ "''answer remote''"]
  note k = no_session_operations_do_nothing [OF h, of labEnv _ "\<lparr>Candidate = ''host'', SDPMid = None, SDPMLineIndex = None\<rparr>" "''candidate host''"]
  from o a k h show ?thesis by simp
qed

subsection \<open>The video codec\<close>

text \<open>
  Claim C5, as amended. \<^verbatim>\<open>createPeerConnection\<close> returns an error whenever the video codec
  of the options is not "VP8", before any call of the engine and with the connection
  unchanged.
\<close>

theorem unsupported_codec_fails_before_the_engine:
  assumes "VideoCodec (Video (Options c)) \<noteq> ''VP8''"
  shows "createPeerConnection env c = (Some (UnsupportedVideoCodec (VideoCodec (Video (Options c)))), c)"
  using assms by (simp add: createPeerConnection_def)

text \<open>An example of C5 with the codec H264.\<close>

theorem unsupported_codec_fails_before_the_engine_witness:
  "VideoCodec (Video (Options (labConnected ''H264''))) \<noteq> ''VP8''
   \<and> createPeerConnection labEnv (labConnected ''H264'')
       = (Some (UnsupportedVideoCodec ''H264''), labConnected ''H264'')"
proof -
  have h: "VideoCodec (Video (Options (labConnected ''H264''))) \<noteq> ''VP8''"
    by (simp add: labOptions_def)
  from unsupported_codec_fails_before_the_engine [OF h, of labEnv] h
  show ?thesis by (simp add: labOptions_def)
qed

text \<open>
  Claim C5 as stated fails: with the codec H264, \<^verbatim>\<open>Connect\<close> returns nil after it has dialled
  and written the register message, and the frame \<^verbatim>\<open>accept\<close>, on which the session is to be
  created, is handled with the result nil and no session.
\<close>

theorem unsupported_codec_not_surfaced_counterexample:
  "VideoCodec (Video (Options (labNew ''H264''))) = ''H264''
   \<and> fst (Connect labEnv (labNew ''H264'')) = None
   \<and> events (labConnected ''H264'') =
       [Dial ''wss://relay'', GoRecv, GoMain, Write 0 (RegisterMsg (registerMsg labEnv (labNew ''H264'')))]
   \<and> handleMessage labEnv ''accept c1'' (labConnected ''H264'')
       = Return None (acceptFields labAccept1 (labConnected ''H264''))
   \<and> pc (acceptFields labAccept1 (labConnected ''H264'')) = None
   \<and> events (acceptFields labAccept1 (labConnected ''H264'')) = events (labConnected ''H264'')"
  by (simp add: handleMessage_def handleAccept_def createPeerConnection_def labOptions_def
      labAccept1_def)
     (simp add: labNew_def NewConnection_def Connect_def labOptions_def)

subsection \<open>Disconnect\<close>




subsection \<open>Reject\<close>

text \<open>
  Claim C1, evaluated on a connection whose on-disconnect handler is the consumer's function
  7. The frame \<open>reject full\<close> is handled with the result nil and the teardown is performed, but
  \<^verbatim>\<open>Disconnect\<close> has put the no-op stub in the handler field before the field is called: the
  events end with the close of the transport and one call of the stub with the reason "full",
  and the consumer's function is not called.
\<close>

theorem reject_calls_the_stub:
  "onDisconnectHandler (OnDisconnect (Consumer 7) (labConnected ''VP8'')) = Consumer 7
   \<and> handleMessage labEnv ''reject full'' (OnDisconnect (Consumer 7) (labConnected ''VP8''))
       = Return None
           (emit (CallOnDisconnect NoOp ''full'' None)
              (Disconnect labEnv (OnDisconnect (Consumer 7) (labConnected ''VP8''))))
   \<and> events (emit (CallOnDisconnect NoOp ''full'' None)
                (Disconnect labEnv (OnDisconnect (Consumer 7) (labConnected ''VP8''))))
       = [Dial ''wss://relay'', GoRecv, GoMain,
          Write 0 (RegisterMsg (registerMsg labEnv (labNew ''VP8''))),
          CloseWS 0,
          CallOnDisconnect NoOp ''full'' None]"
proof -
  have "handleMessage labEnv ''reject full'' (OnDisconnect (Consumer 7) (labConnected ''VP8''))
       = Return None
           (emit (CallOnDisconnect NoOp ''full'' None)
              (Disconnect labEnv (OnDisconnect (Consumer 7) (labConnected ''VP8''))))"
    using handleMessage_reject [of labEnv "''reject full''" "\<lparr>Reason = ''full''\<rparr>"] by simp
  then show ?thesis
    by (simp add: Disconnect_events) (simp add: OnDisconnect_def)
qed

subsection \<open>Frames that end the dispatch\<close>

text \<open>
  Claim C8, evaluated at the frame \<open>null\<close>: valid JSON that carries no type tag. The decoder
  returns no error and leaves the pointer \<^verbatim>\<open>message\<close> nil, the next statement of
  \<^verbatim>\<open>handleMessage\<close> reads \<^verbatim>\<open>message.Type\<close>, and \<^verbatim>\<open>main\<close> does not recover: the dispatch task
  panics at that frame, where the claim has it end with a protocol error. The frames after it
  are not handled.
\<close>

theorem null_frame_panics_dispatch:
  "json_Unmarshal_type labEnv ''null'' = JSONNull
   \<and> handleMessage labEnv ''null'' (labConnected ''VP8'') = Panic
   \<and> main labEnv [''null'', ''ping''] (labConnected ''VP8'') = ExitPanic"
proof -
  have n: "json_Unmarshal_type labEnv ''null'' = JSONNull" by simp
  from n null_frame_panics(1) [OF n, of "labConnected ''VP8''"]
    null_frame_panics(2) [OF n, of "[''ping'']" "labConnected ''VP8''"]
  show ?thesis by simp
qed

text \<open>
  The other malformed frames do end the dispatch with a protocol error. A frame that does not
  parse is handled with the result \<^verbatim>\<open>errorInvalidJSON\<close>, and a frame whose type tag is none of the
  seven known ones (the empty tag of a JSON object without one included) with the result
  \<^verbatim>\<open>errorInvalidMessageType\<close>; in both cases the connection is unchanged, there is no panic, and
  the dispatch loop ends at that frame with the error, running its deferred \<^verbatim>\<open>cancel\<close>. A frame
  whose read fails in the read task (as the transport does with a frame over its read limit)
  does not reach the dispatch loop: the read task puts nothing on the channel from there on and
  closes it, and the dispatch loop ends on the closed channel without an error.
\<close>

lemma protocol_errors_end_dispatch:
  "(json_Unmarshal_type env raw = JSONError \<longrightarrow>
      handleMessage env raw c = Return (Some errorInvalidJSON) c
      \<and> main env (raw # rest) c = ExitError errorInvalidJSON (emit Cancel c))
   \<and> (json_Unmarshal_type env raw = Tag t
        \<and> t \<notin> set [''ping'', ''bye'', ''accept'', ''reject'', ''offer'', ''answer'', ''candidate'']
      \<longrightarrow> handleMessage env raw c = Return (Some errorInvalidMessageType) c
          \<and> main env (raw # rest) c = ExitError errorInvalidMessageType (emit Cancel c))
   \<and> recv (Inl err # reads) = []
   \<and> main env (recv (Inl err # reads)) c = ExitChannelClosed (emit Cancel c)"
  by (simp add: handleMessage_def)

text \<open>An example of each of these cases.\<close>

lemma protocol_errors_end_dispatch_example:
  "main labEnv [''?'', ''ping''] (labConnected ''VP8'')
     = ExitError errorInvalidJSON (emit Cancel (labConnected ''VP8''))
   \<and> main labEnv [''hello'', ''ping''] (labConnected ''VP8'')
     = ExitError errorInvalidMessageType (emit Cancel (labConnected ''VP8''))
   \<and> main labEnv (recv [Inl (External ''read limited''), Inr ''ping'']) (labConnected ''VP8'')
     = ExitChannelClosed (emit Cancel (labConnected ''VP8''))"
proof -
  note a = protocol_errors_end_dispatch
             [of labEnv "''?''" "labConnected ''VP8''" "[''ping'']" _ "External ''read limited''"
                 "[Inr ''ping'']"]
  note b = protocol_errors_end_dispatch
             [of labEnv "''hello''" "labConnected ''VP8''" "[''ping'']" "''hello''"]
  from a b show ?thesis by simp
qed

text \<open>
  A frame over the size cap of 1 MiB: when the transport refuses it, the dispatch loop ends on
  the closed channel; and \<^verbatim>\<open>handleMessage\<close> itself has no size check, so that such a frame, were
  it delivered, is handled like any other (here a ping followed by blanks is answered with a
  pong).
\<close>

lemma oversized_frame_example:
  "readLimit < length (replicate 1048577 (CHR ''x''))
   \<and> ws_Read readLimit (replicate 1048577 (CHR ''x'')) = Inl (External ''read limited'')
   \<and> main labEnv (recv (map (ws_Read readLimit) [replicate 1048577 (CHR ''x'')])) (labConnected ''VP8'')
       = ExitChannelClosed (emit Cancel (labConnected ''VP8''))
   \<and> readLimit < length (''ping'' @ replicate 1048576 (CHR '' ''))
   \<and> handleMessage labEnv (''ping'' @ replicate 1048576 (CHR '' '')) (labConnected ''VP8'')
       = Return None (snd (sendPongMessage labEnv (labConnected ''VP8'')))
   \<and> events (snd (sendPongMessage labEnv (labConnected ''VP8'')))
       = events (labConnected ''VP8'') @ [Write 0 PongMsg]"
proof -
  have t: "json_Unmarshal_type labEnv (''ping'' @ replicate 1048576 (CHR '' '')) = Tag ''ping''"
    by (simp add: labEnv_def tagOf_def)
  from t show ?thesis
    by (simp add: readLimit_def ws_Read_def handleMessage_def sendPongMessage_def sendMsg_def)
qed

subsection \<open>Accept\<close>

text \<open>
  Claim C3, as amended. Let an \<^verbatim>\<open>accept\<close> frame decode to the message \<open>m\<close>.
  \<^item> With \<^verbatim>\<open>isExistUser\<close> false, the frame is handled with the result nil, the connection is the
    one \<^verbatim>\<open>createPeerConnection\<close> leaves, and nothing is handed to the transport.
  \<^item> When \<^verbatim>\<open>createPeerConnection\<close> succeeds, a session is stored.
  \<^item> With \<^verbatim>\<open>isExistUser\<close> true, when \<^verbatim>\<open>createPeerConnection\<close> succeeds, the engine creates an
    offer and then reports a local description \<open>d\<close>, and the transport is open, the frame is
    handled with the result nil and exactly one message is handed to the transport: the
    session description \<open>d\<close> (the offer, for an engine that reports the description just set).
  \<^item> A frame with any tag other than \<^verbatim>\<open>offer\<close> and \<^verbatim>\<open>accept\<close> sends no session description.
\<close>

theorem accept_creates_session_and_offers:
  assumes "json_Unmarshal_type env raw = Tag ''accept''"
    and "unmarshal_accept env raw = Inr m"
  shows
    "(\<not> IsExistClient m \<longrightarrow>
        handleMessage env raw c = Return None (snd (createPeerConnection env (acceptFields m c)))
        \<and> sent (events (snd (createPeerConnection env (acceptFields m c)))) = sent (events c))
     \<and> (fst (createPeerConnection env (acceptFields m c)) = None \<longrightarrow>
          pc (snd (createPeerConnection env (acceptFields m c))) \<noteq> None)
     \<and> (IsExistClient m
          \<and> createPeerConnection env (acceptFields m c) = (None, c4)
          \<and> pc c4 = Some p
          \<and> pc_CreateOffer env (events c4) p = Inr offer
          \<and> pc_LocalDescription env (events c4 @ [CreateOffer p, SetLocalDescription p offer]) p = Some d
          \<and> ws c = Some w
        \<longrightarrow> handleMessage env raw c =
              Return None
                (c4\<lparr>events := events c4 @ [CreateOffer p, SetLocalDescription p offer, Write w (SdpMsg d)],
                    isOffer := True\<rparr>)
            \<and> sent (events c4 @ [CreateOffer p, SetLocalDescription p offer, Write w (SdpMsg d)])
                = sent (events c) @ [SdpMsg d])
     \<and> (json_Unmarshal_type env raw' = Tag t \<and> t \<noteq> ''offer'' \<and> t \<noteq> ''accept''
          \<and> handleMessage env raw' c' = Return r c''
        \<longrightarrow> sentSdp (sent (events c'')) = sentSdp (sent (events c')))"
proof -
  have a: "\<not> IsExistClient m \<longrightarrow>
        handleMessage env raw c = Return None (snd (createPeerConnection env (acceptFields m c)))
        \<and> sent (events (snd (createPeerConnection env (acceptFields m c)))) = sent (events c)"
    using assms by (simp add: handleMessage_def handleAccept_def Let_def)
  have b: "fst (createPeerConnection env (acceptFields m c)) = None \<longrightarrow>
          pc (snd (createPeerConnection env (acceptFields m c))) \<noteq> None"
    using createPeerConnection_success [of env "acceptFields m c"] by auto
  have c: "IsExistClient m
          \<and> createPeerConnection env (acceptFields m c) = (None, c4)
          \<and> pc c4 = Some p
          \<and> pc_CreateOffer env (events c4) p = Inr offer
          \<and> pc_LocalDescription env (events c4 @ [CreateOffer p, SetLocalDescription p offer]) p = Some d
          \<and> ws c = Some w
        \<longrightarrow> handleMessage env raw c =
              Return None
                (c4\<lparr>events := events c4 @ [CreateOffer p, SetLocalDescription p offer, Write w (SdpMsg d)],
                    isOffer := True\<rparr>)
            \<and> sent (events c4 @ [CreateOffer p, SetLocalDescription p offer, Write w (SdpMsg d)])
                = sent (events c) @ [SdpMsg d]"
  proof (intro impI, elim conjE)
    assume h: "IsExistClient m" "createPeerConnection env (acceptFields m c) = (None, c4)"
      "pc c4 = Some p" "pc_CreateOffer env (events c4) p = Inr offer"
      "pc_LocalDescription env (events c4 @ [CreateOffer p, SetLocalDescription p offer]) p = Some d"
      "ws c = Some w"
    have c4: "c4 = snd (createPeerConnection env (acceptFields m c))" using h(2) by simp
    have w4: "ws c4 = Some w" and e4: "isExistClient c4" and s4: "sent (events c4) = sent (events c)"
      using h(1,6) by (simp_all add: c4)
    have so: "sendOffer env c4 =
        (None, c4\<lparr>events := events c4 @ [CreateOffer p, SetLocalDescription p offer, Write w (SdpMsg d)],
                   isOffer := True\<rparr>)"
      using h(3,4,5) w4 by (simp add: sendOffer_def Let_def sendSdp_def sendMsg_def emit_def)
    have "handleMessage env raw c =
            Return None
              (c4\<lparr>events := events c4 @ [CreateOffer p, SetLocalDescription p offer, Write w (SdpMsg d)],
                  isOffer := True\<rparr>)"
      using assms e4 so c4 by (simp add: handleMessage_def handleAccept_def Let_def)
    then show "handleMessage env raw c =
              Return None
                (c4\<lparr>events := events c4 @ [CreateOffer p, SetLocalDescription p offer, Write w (SdpMsg d)],
                    isOffer := True\<rparr>)
            \<and> sent (events c4 @ [CreateOffer p, SetLocalDescription p offer, Write w (SdpMsg d)])
                = sent (events c) @ [SdpMsg d]"
      using s4 by simp
  qed
  have d: "json_Unmarshal_type env raw' = Tag t \<and> t \<noteq> ''offer'' \<and> t \<noteq> ''accept''
          \<and> handleMessage env raw' c' = Return r c''
        \<longrightarrow> sentSdp (sent (events c'')) = sentSdp (sent (events c'))"
    using no_description_sent [of env raw' t c' r c''] by blast
  from a b c d show ?thesis by blast
qed

text \<open>
  An example of C3: \<open>accept c1\<close> (no peer) creates session 4 and sends nothing; \<open>accept c2\<close> (a peer)
  creates session 4 and sends the one offer; an answer frame after \<open>accept c1\<close> sends no session
  description.
\<close>

theorem accept_creates_session_and_offers_witness:
  "handleMessage labEnv ''accept c1'' (labConnected ''VP8'') = Return None labSession
   \<and> pc labSession = Some 4
   \<and> sent (events labSession) = [RegisterMsg (registerMsg labEnv (labNew ''VP8''))]
   \<and> handleMessage labEnv ''accept c2'' (labConnected ''VP8'') = Return None labOffering
   \<and> pc labOffering = Some 4
   \<and> sent (events labOffering) =
       [RegisterMsg (registerMsg labEnv (labNew ''VP8'')),
        SdpMsg \<lparr>SDType = SDPTypeOffer, SDP = ''local offer''\<rparr>]
   \<and> handleMessage labEnv ''answer remote'' labSession
       = Return None (emit (SetRemoteDescription 4 \<lparr>SDType = SDPTypeAnswer, SDP = ''remote''\<rparr>) labSession)
   \<and> sentSdp (sent (events (emit (SetRemoteDescription 4 \<lparr>SDType = SDPTypeAnswer, SDP = ''remote''\<rparr>)
                                labSession))) = []"
proof -
  have n: "\<not> IsExistClient labAccept1" by (simp add: labAccept1_def)
  have y: "IsExistClient labAccept2" by (simp add: labAccept2_def)
  from accept_creates_session_and_offers
         [of labEnv "''accept c1''" labAccept1 "labConnected ''VP8''"] n
  have 1: "handleMessage labEnv ''accept c1'' (labConnected ''VP8'') = Return None labSession"
    by (simp add: labSession_def)
  from accept_creates_session_and_offers
         [of labEnv "''accept c2''" labAccept2 "labConnected ''VP8''"
             "snd (createPeerConnection labEnv (acceptFields labAccept2 (labConnected ''VP8'')))"
             4 "\<lparr>SDType = SDPTypeOffer, SDP = ''local offer''\<rparr>"
             "\<lparr>SDType = SDPTypeOffer, SDP = ''local offer''\<rparr>" 0] y
  have 2: "handleMessage labEnv ''accept c2'' (labConnected ''VP8'') = Return None labOffering"
    by (simp add: labOffering_created labOffering_eq labLocalStep_def)
  have 3: "handleMessage labEnv ''answer remote'' labSession
       = Return None (emit (SetRemoteDescription 4 \<lparr>SDType = SDPTypeAnswer, SDP = ''remote''\<rparr>) labSession)"
    by (simp add: handleMessage_def handleAnswer_def setAnswer_def)
  from accept_creates_session_and_offers
         [of labEnv "''accept c1''" labAccept1 "labConnected ''VP8''" _ _ _ _ _
             "''answer remote''" "''answer''" labSession None
             "emit (SetRemoteDescription 4 \<lparr>SDType = SDPTypeAnswer, SDP = ''remote''\<rparr>) labSession"] 3
  have 4: "sentSdp (sent (events (emit (SetRemoteDescription 4 \<lparr>SDType = SDPTypeAnswer, SDP = ''remote''\<rparr>)
                                labSession))) = []"
    by (simp del: emit_fields labSession_fields) (simp add: labRegister)
  from 1 2 3 4 show ?thesis by simp
qed

text \<open>
  Claim C3 as stated fails when the session cannot be created: with the codec H264 an
  \<^verbatim>\<open>accept\<close> frame with \<^verbatim>\<open>isExistUser\<close> true is handled with the result nil, no session is stored
  and no offer is sent.
\<close>

theorem accept_unsupported_codec_counterexample:
  "IsExistClient labAccept2
   \<and> handleMessage labEnv ''accept c2'' (labConnected ''H264'')
       = Return None (acceptFields labAccept2 (labConnected ''H264''))
   \<and> pc (acceptFields labAccept2 (labConnected ''H264'')) = None
   \<and> sent (events (acceptFields labAccept2 (labConnected ''H264'')))
       = [RegisterMsg (registerMsg labEnv (labNew ''H264''))]"
proof -
  have y: "IsExistClient labAccept2" by (simp add: labAccept2_def)
  then show ?thesis
    by (simp add: handleMessage_def handleAccept_def createPeerConnection_def labOptions_def
        sendOffer_def)
qed

subsection \<open>Glare\<close>

text \<open>
  Claim C4, as amended. Let an \<^verbatim>\<open>offer\<close> frame decode to \<open>offerMsg\<close> while the stored session
  \<open>p0\<close> is in the signaling state "have local offer", let \<^verbatim>\<open>createPeerConnection\<close> succeed with
  a session \<open>p\<close>, and let the transport be open. Then a session is created anew by the engine,
  and the remote offer is applied to the new session \<open>p\<close>.
  \<^item> When the engine accepts the remote offer, creates an answer and then reports a local
    description \<open>d\<close>, the frame is handled with the result nil, the connection holds the new
    session \<open>p\<close> as its one session, and exactly one message is handed to the transport: the
    session description \<open>d\<close> (the answer, for an engine that reports the description just set).
  \<^item> When the engine refuses the remote offer, the frame is handled with the error of the
    engine, \<^verbatim>\<open>Disconnect\<close> is performed and no message is handed to the transport.
\<close>

theorem glare_offer_recreates_and_answers:
  assumes "json_Unmarshal_type env raw = Tag ''offer''"
    and "unmarshal_sdp env raw = Inr offerMsg"
    and "pc c = Some p0"
    and "pc_SignalingState env (events c) p0 = SignalingStateHaveLocalOffer"
    and "createPeerConnection env c = (None, c1)"
    and "pc c1 = Some p"
    and "ws c = Some w"
  shows "(\<exists>es. events c1 = events c @ NewPeerConnection (pcConfig c) # es)
       \<and> (pc_SetRemoteDescription env (events c1) p offerMsg = None
           \<and> pc_CreateAnswer env (events c1 @ [SetRemoteDescription p offerMsg]) p = Inr answer
           \<and> pc_LocalDescription env
                (events c1 @ [SetRemoteDescription p offerMsg, CreateAnswer p,
                              SetLocalDescription p answer]) p = Some d
          \<longrightarrow> handleMessage env raw c =
                Return None
                  (c1\<lparr>events := events c1 @ [SetRemoteDescription p offerMsg, CreateAnswer p,
                                              SetLocalDescription p answer, Write w (SdpMsg d)]\<rparr>)
              \<and> sent (events c1 @ [SetRemoteDescription p offerMsg, CreateAnswer p,
                                    SetLocalDescription p answer, Write w (SdpMsg d)])
                  = sent (events c) @ [SdpMsg d])
       \<and> (pc_SetRemoteDescription env (events c1) p offerMsg = Some err
          \<longrightarrow> (\<exists>e. handleMessage env raw c =
                      Return (Some err)
                        (emit e (Disconnect env (emit (SetRemoteDescription p offerMsg) c1)))
                    \<and> sent (events (emit e (Disconnect env (emit (SetRemoteDescription p offerMsg) c1))))
                        = sent (events c)))"
proof -
  have c1: "c1 = snd (createPeerConnection env c)" using assms(5) by simp
  have w1: "ws c1 = Some w" and s1: "sent (events c1) = sent (events c)"
    using assms(7) by (simp_all add: c1)
  have v: "VideoCodec (Video (Options c)) = ''VP8''"
    using createPeerConnection_success [of env c] assms(5) by simp
  have a: "\<exists>es. events c1 = events c @ NewPeerConnection (pcConfig c) # es"
    using createPeerConnection_calls_engine [OF v, of env] c1 by auto
  have hm: "handleMessage env raw c = (case setOffer env offerMsg c1 of (r, c2) \<Rightarrow> Return r c2)"
    using assms(1,2,3,4) c1 by (simp add: handleMessage_def handleOffer_def Let_def)
  have b: "pc_SetRemoteDescription env (events c1) p offerMsg = None
           \<and> pc_CreateAnswer env (events c1 @ [SetRemoteDescription p offerMsg]) p = Inr answer
           \<and> pc_LocalDescription env
                (events c1 @ [SetRemoteDescription p offerMsg, CreateAnswer p,
                              SetLocalDescription p answer]) p = Some d
          \<longrightarrow> handleMessage env raw c =
                Return None
                  (c1\<lparr>events := events c1 @ [SetRemoteDescription p offerMsg, CreateAnswer p,
                                              SetLocalDescription p answer, Write w (SdpMsg d)]\<rparr>)
              \<and> sent (events c1 @ [SetRemoteDescription p offerMsg, CreateAnswer p,
                                    SetLocalDescription p answer, Write w (SdpMsg d)])
                  = sent (events c) @ [SdpMsg d]"
  proof (intro impI, elim conjE)
    assume h: "pc_SetRemoteDescription env (events c1) p offerMsg = None"
      "pc_CreateAnswer env (events c1 @ [SetRemoteDescription p offerMsg]) p = Inr answer"
      "pc_LocalDescription env
         (events c1 @ [SetRemoteDescription p offerMsg, CreateAnswer p, SetLocalDescription p answer]) p
       = Some d"
    have ca: "createAnswer env (emit (SetRemoteDescription p offerMsg) c1) =
        (None, c1\<lparr>events := events c1 @ [SetRemoteDescription p offerMsg, CreateAnswer p,
                                           SetLocalDescription p answer, Write w (SdpMsg d)]\<rparr>)"
      using assms(6) h(2,3) w1 by (simp add: createAnswer_def Let_def sendSdp_def sendMsg_def emit_def)
    have so: "setOffer env offerMsg c1 =
        (None, c1\<lparr>events := events c1 @ [SetRemoteDescription p offerMsg, CreateAnswer p,
                                           SetLocalDescription p answer, Write w (SdpMsg d)]\<rparr>)"
      using assms(6) h(1) ca by (simp add: setOffer_def Let_def)
    show "handleMessage env raw c =
                Return None
                  (c1\<lparr>events := events c1 @ [SetRemoteDescription p offerMsg, CreateAnswer p,
                                              SetLocalDescription p answer, Write w (SdpMsg d)]\<rparr>)
              \<and> sent (events c1 @ [SetRemoteDescription p offerMsg, CreateAnswer p,
                                    SetLocalDescription p answer, Write w (SdpMsg d)])
                  = sent (events c) @ [SdpMsg d]"
      using hm so s1 by simp
  qed
  have r: "pc_SetRemoteDescription env (events c1) p offerMsg = Some err
          \<longrightarrow> (\<exists>e. handleMessage env raw c =
                      Return (Some err)
                        (emit e (Disconnect env (emit (SetRemoteDescription p offerMsg) c1)))
                    \<and> sent (events (emit e (Disconnect env (emit (SetRemoteDescription p offerMsg) c1))))
                        = sent (events c))"
  proof
    assume h: "pc_SetRemoteDescription env (events c1) p offerMsg = Some err"
    have so: "setOffer env offerMsg c1 =
        (Some err,
         emit (CallOnDisconnect NoOp ''CREATE-OFFER-ERROR'' (Some err))
           (Disconnect env (emit (SetRemoteDescription p offerMsg) c1)))"
      using assms(6) h by (simp add: setOffer_def Let_def callOnDisconnect_def)
    have "sent (events (emit (CallOnDisconnect NoOp ''CREATE-OFFER-ERROR'' (Some err))
                          (Disconnect env (emit (SetRemoteDescription p offerMsg) c1))))
          = sent (events c)"
      using s1 by simp
    with hm so show "\<exists>e. handleMessage env raw c =
                      Return (Some err)
                        (emit e (Disconnect env (emit (SetRemoteDescription p offerMsg) c1)))
                    \<and> sent (events (emit e (Disconnect env (emit (SetRemoteDescription p offerMsg) c1))))
                        = sent (events c)"
      by auto
  qed
  from a b r show ?thesis by blast
qed

text \<open>
  An example of C4: a remote offer arrives while the offer of session 4 is pending; session 13
  is created and holds the connection, and one answer is sent. The remote offer \<open>bad\<close>, which
  the engine refuses, is handled with the error of the engine and nothing is sent.
\<close>

theorem glare_offer_recreates_and_answers_witness:
  "pc labOffering = Some 4
   \<and> pc_SignalingState labEnv (events labOffering) 4 = SignalingStateHaveLocalOffer
   \<and> handleMessage labEnv ''offer remote'' labOffering =
       Return None
         (labOffering
            \<lparr>pc := Some 13,
             events := events labOffering @
               [NewPeerConnection (pcConfig labOffering),
                AddTransceiver 13 RTPCodecTypeAudio, AddTransceiver 13 RTPCodecTypeVideo, OnTrack 13,
                OnICEConnectionStateChange 13 ConnectionICECallback, OnSignalingStateChange 13,
                CallOnOpen NoOp (Some ''m''),
                SetRemoteDescription 13 \<lparr>SDType = SDPTypeOffer, SDP = ''remote''\<rparr>,
                CreateAnswer 13,
                SetLocalDescription 13 \<lparr>SDType = SDPTypeAnswer, SDP = ''local answer''\<rparr>,
                Write 0 (SdpMsg \<lparr>SDType = SDPTypeAnswer, SDP = ''local answer''\<rparr>)]\<rparr>)
   \<and> sent (events labOffering @
               [NewPeerConnection (pcConfig labOffering),
                AddTransceiver 13 RTPCodecTypeAudio, AddTransceiver 13 RTPCodecTypeVideo, OnTrack 13,
                OnICEConnectionStateChange 13 ConnectionICECallback, OnSignalingStateChange 13,
                CallOnOpen NoOp (Some ''m''),
                SetRemoteDescription 13 \<lparr>SDType = SDPTypeOffer, SDP = ''remote''\<rparr>,
                CreateAnswer 13,
                SetLocalDescription 13 \<lparr>SDType = SDPTypeAnswer, SDP = ''local answer''\<rparr>,
                Write 0 (SdpMsg \<lparr>SDType = SDPTypeAnswer, SDP = ''local answer''\<rparr>)])
       = [RegisterMsg (registerMsg labEnv (labNew ''VP8'')),
          SdpMsg \<lparr>SDType = SDPTypeOffer, SDP = ''local offer''\<rparr>,
          SdpMsg \<lparr>SDType = SDPTypeAnswer, SDP = ''local answer''\<rparr>]
   \<and> (\<exists>e c'. handleMessage labEnv ''offer bad'' labOffering = Return (Some (External ''sdp'')) (emit e c')
              \<and> sent (events (emit e c')) = sent (events labOffering))"
proof -
  let ?o = "\<lparr>SDType = SDPTypeOffer, SDP = ''remote''\<rparr>"
  let ?b = "\<lparr>SDType = SDPTypeOffer, SDP = ''bad''\<rparr>"
  let ?a = "\<lparr>SDType = SDPTypeAnswer, SDP = ''local answer''\<rparr>"
  define c1 where "c1 = snd (createPeerConnection labEnv labOffering)"
  have e1: "events c1 = events labOffering @
           [NewPeerConnection (pcConfig labOffering),
            AddTransceiver 13 RTPCodecTypeAudio, AddTransceiver 13 RTPCodecTypeVideo, OnTrack 13,
            OnICEConnectionStateChange 13 ConnectionICECallback, OnSignalingStateChange 13,
            CallOnOpen NoOp (Some ''m'')]"
    by (simp add: c1_def labGlare_created)
  have t: "json_Unmarshal_type labEnv ''offer remote'' = Tag ''offer''" by simp
  have d: "unmarshal_sdp labEnv ''offer remote'' = Inr ?o" by simp
  have t': "json_Unmarshal_type labEnv ''offer bad'' = Tag ''offer''" by simp
  have d': "unmarshal_sdp labEnv ''offer bad'' = Inr ?b" by simp
  have p0: "pc labOffering = Some 4" by simp
  have st: "pc_SignalingState labEnv (events labOffering) 4 = SignalingStateHaveLocalOffer"
    by (rule labOffering_state)
  have cr: "createPeerConnection labEnv labOffering = (None, c1)"
    by (simp add: c1_def labGlare_created)
  have p: "pc c1 = Some 13" by (simp add: c1_def labGlare_created)
  have sr: "pc_SetRemoteDescription labEnv (events c1) 13 ?o = None" by simp
  have sr': "pc_SetRemoteDescription labEnv (events c1) 13 ?b = Some (External ''sdp'')" by simp
  have ca: "pc_CreateAnswer labEnv (events c1 @ [SetRemoteDescription 13 ?o]) 13 = Inr ?a" by simp
  have l: "pc_LocalDescription labEnv
             (events c1 @ [SetRemoteDescription 13 ?o, CreateAnswer 13, SetLocalDescription 13 ?a]) 13
           = Some ?a"
    by (simp add: labLocalStep_def)
  have w: "ws labOffering = Some 0" by simp
  have c1: "c1 = labOffering\<lparr>pc := Some 13, events := events c1\<rparr>"
    by (simp add: e1) (simp add: c1_def labGlare_created)
  note th = glare_offer_recreates_and_answers [OF t d p0 st cr p w, of ?a ?a]
  from th sr ca l have h: "handleMessage labEnv ''offer remote'' labOffering =
       Return None
         (c1\<lparr>events := events c1 @ [SetRemoteDescription 13 ?o, CreateAnswer 13,
                                     SetLocalDescription 13 ?a, Write 0 (SdpMsg ?a)]\<rparr>)"
    by blast
  have "c1\<lparr>events := events c1 @ [SetRemoteDescription 13 ?o, CreateAnswer 13,
                                     SetLocalDescription 13 ?a, Write 0 (SdpMsg ?a)]\<rparr>
        = labOffering\<lparr>pc := Some 13,
             events := events c1 @ [SetRemoteDescription 13 ?o, CreateAnswer 13,
                                     SetLocalDescription 13 ?a, Write 0 (SdpMsg ?a)]\<rparr>"
    by (subst c1) simp
  with h have h': "handleMessage labEnv ''offer remote'' labOffering =
       Return None
         (labOffering\<lparr>pc := Some 13,
             events := events c1 @ [SetRemoteDescription 13 ?o, CreateAnswer 13,
                                     SetLocalDescription 13 ?a, Write 0 (SdpMsg ?a)]\<rparr>)"
    by simp
  note th' = glare_offer_recreates_and_answers
               [OF t' d' p0 st cr p w, of _ _ "External ''sdp''"]
  from th' sr' have r: "\<exists>e c'. handleMessage labEnv ''offer bad'' labOffering
                            = Return (Some (External ''sdp'')) (emit e c')
              \<and> sent (events (emit e c')) = sent (events labOffering)"
    by blast
  show ?thesis
    apply (intro conjI)
        apply (rule p0)
       apply (rule st)
      apply (simp only: h' e1 append_Cons append_Nil append_assoc)
     apply simp
    apply (rule r)
    done
qed

text \<open>
  Claim C4 as stated fails when the engine refuses the remote offer: the frame is handled
  with the error of the engine, the connection is torn down and no answer is sent.
\<close>

theorem glare_offer_refused_counterexample:
  "pc labOffering = Some 4
   \<and> pc_SignalingState labEnv (events labOffering) 4 = SignalingStateHaveLocalOffer
   \<and> handleMessage labEnv ''offer bad'' labOffering =
       Return (Some (External ''sdp''))
         (callOnDisconnect ''CREATE-OFFER-ERROR'' (Some (External ''sdp''))
            (Disconnect labEnv
               (emit (SetRemoteDescription 13 \<lparr>SDType = SDPTypeOffer, SDP = ''bad''\<rparr>)
                  (snd (createPeerConnection labEnv labOffering)))))
   \<and> sent (events
         (callOnDisconnect ''CREATE-OFFER-ERROR'' (Some (External ''sdp''))
            (Disconnect labEnv
               (emit (SetRemoteDescription 13 \<lparr>SDType = SDPTypeOffer, SDP = ''bad''\<rparr>)
                  (snd (createPeerConnection labEnv labOffering))))))
       = [RegisterMsg (registerMsg labEnv (labNew ''VP8'')),
          SdpMsg \<lparr>SDType = SDPTypeOffer, SDP = ''local offer''\<rparr>]"
proof -
  have st: "pc_SignalingState labEnv (events labOffering) 4 = SignalingStateHaveLocalOffer"
    by (rule labOffering_state)
  have p: "pc (snd (createPeerConnection labEnv labOffering)) = Some 13"
    by (simp add: labGlare_created)
  have h: "handleMessage labEnv ''offer bad'' labOffering =
       Return (Some (External ''sdp''))
         (callOnDisconnect ''CREATE-OFFER-ERROR'' (Some (External ''sdp''))
            (Disconnect labEnv
               (emit (SetRemoteDescription 13 \<lparr>SDType = SDPTypeOffer, SDP = ''bad''\<rparr>)
                  (snd (createPeerConnection labEnv labOffering)))))"
    using st p
    by (simp add: handleMessage_def handleOffer_def setOffer_def Let_def
        del: labEnv_fields(5) labOffering_fields(8))
  have s: "sent (events
         (callOnDisconnect ''CREATE-OFFER-ERROR'' (Some (External ''sdp''))
            (Disconnect labEnv
               (emit (SetRemoteDescription 13 \<lparr>SDType = SDPTypeOffer, SDP = ''bad''\<rparr>)
                  (snd (createPeerConnection labEnv labOffering))))))
       = [RegisterMsg (registerMsg labEnv (labNew ''VP8'')),
          SdpMsg \<lparr>SDType = SDPTypeOffer, SDP = ''local offer''\<rparr>]"
    by (simp add: callOnDisconnect_def)
  from st h s show ?thesis by simp
qed

subsection \<open>Relay servers\<close>

text \<open>
  Claim C6, evaluated on a connection that is used twice. Its options hold the fallback server
  \<open>stun:fallback\<close>, and so does its session configuration at first. In the first session the
  relay supplies \<open>turn:relay\<close>, which replaces the configured servers. The consumer
  disconnects (the configuration is not among the fields that \<^verbatim>\<open>Disconnect\<close> resets) and connects
  again. In the second session the relay supplies no server, and the session is created with
  \<open>turn:relay\<close>, not with the fallback server of the options.
\<close>

theorem fallback_servers_not_restored_after_reconnect:
  "OptionsICEServers (Options (labConnected ''VP8'')) = [labFallback]
   \<and> pcConfig (labConnected ''VP8'') = \<lparr>ICEServers = [labFallback]\<rparr>
   \<and> handleMessage labEnv ''accept c2'' (labConnected ''VP8'') = Return None labOffering
   \<and> ws labReconnected = Some 17
   \<and> pc labReconnected = None
   \<and> IceServers labAccept1 = None
   \<and> OptionsICEServers (Options labReconnected) = [labFallback]
   \<and> handleMessage labEnv ''accept c1'' labReconnected
       = Return None (snd (createPeerConnection labEnv (acceptFields labAccept1 labReconnected)))
   \<and> events (snd (createPeerConnection labEnv (acceptFields labAccept1 labReconnected)))
       = events labReconnected @
         [NewPeerConnection
            \<lparr>ICEServers = [\<lparr>URLs = [''turn:relay''], Username = ''u'', Credential = Some ''p'',
                             CredentialType = ICECredentialTypePassword\<rparr>]\<rparr>,
          AddTransceiver 21 RTPCodecTypeAudio, AddTransceiver 21 RTPCodecTypeVideo, OnTrack 21,
          OnICEConnectionStateChange 21 ConnectionICECallback, OnSignalingStateChange 21]
   \<and> labFallback \<noteq> \<lparr>URLs = [''turn:relay''], Username = ''u'', Credential = Some ''p'',
                        CredentialType = ICECredentialTypePassword\<rparr>"
proof -
  have a: "OptionsICEServers (Options (labConnected ''VP8'')) = [labFallback]"
          "pcConfig (labConnected ''VP8'') = \<lparr>ICEServers = [labFallback]\<rparr>"
    by (simp_all add: labOptions_def) (simp add: labConnected_eq labNew_def NewConnection_def labOptions_def)
  have b: "handleMessage labEnv ''accept c2'' (labConnected ''VP8'') = Return None labOffering"
  proof -
    have "fst (sendOffer labEnv
                 (snd (createPeerConnection labEnv (acceptFields labAccept2 (labConnected ''VP8''))))) = None"
      by (simp add: labOffering_created sendOffer_def Let_def)
    then have "sendOffer labEnv
                 (snd (createPeerConnection labEnv (acceptFields labAccept2 (labConnected ''VP8''))))
               = (None, labOffering)"
      by (simp add: labOffering_def prod_eq_iff)
    moreover have "IsExistClient labAccept2" by (simp add: labAccept2_def)
    ultimately show ?thesis
      by (simp add: handleMessage_def handleAccept_def Let_def)
  qed
  have c: "ws labReconnected = Some 17" "pc labReconnected = None"
    by simp_all
  have d: "IceServers labAccept1 = None" "\<not> IsExistClient labAccept1"
    by (simp_all add: labAccept1_def)
  have e: "OptionsICEServers (Options labReconnected) = [labFallback]"
    by (simp add: labOptions_def)
  have f: "handleMessage labEnv ''accept c1'' labReconnected
       = Return None (snd (createPeerConnection labEnv (acceptFields labAccept1 labReconnected)))"
    using d by (simp add: handleMessage_def handleAccept_def Let_def)
  have g: "events (snd (createPeerConnection labEnv (acceptFields labAccept1 labReconnected)))
       = events labReconnected @
         [NewPeerConnection
            \<lparr>ICEServers = [\<lparr>URLs = [''turn:relay''], Username = ''u'', Credential = Some ''p'',
                             CredentialType = ICECredentialTypePassword\<rparr>]\<rparr>,
          AddTransceiver 21 RTPCodecTypeAudio, AddTransceiver 21 RTPCodecTypeVideo, OnTrack 21,
          OnICEConnectionStateChange 21 ConnectionICECallback, OnSignalingStateChange 21]"
    using d
    by (simp add: createPeerConnection_def Let_def labOptions_def acceptFields_pcConfig
        toICEServer_def)
  have h: "labFallback \<noteq> \<lparr>URLs = [''turn:relay''], Username = ''u'', Credential = Some ''p'',
                        CredentialType = ICECredentialTypePassword\<rparr>"
    by (simp add: labFallback_def)
  from a b c d(1) e f g h show ?thesis by blast
qed

end
